theory Spec2Isabelle
  imports Main
begin

section \<open>Errors\<close>

text \<open>
  Go's \<open>error\<close> interface values, as far as the modelled commands build or pass them on.
  A possibly nil \<open>error\<close> is an \<open>error option\<close> (\<open>None\<close> is nil).

  \<^item> \<open>Err s\<close>: an error produced by a collaborator (API client, spinner, input reader,
    nested command); the commands only pass such values on.
  \<^item> \<open>Errorf f args\<close>: the value of \<open>fmt.Errorf(f, args...)\<close>, kept as the format string
    and its operands, each operand being the (possibly nil) error handed to a \<open>%w\<close> verb.
  \<^item> \<open>RemediationError inner remediation\<close>: \<open>errors.RemediationError{Inner, Remediation}\<close>.
  \<^item> \<open>ErrInvalidVerboseJSONCombo\<close>: the package-level error value of that name.
\<close>

text \<open>
  Modelled from the spec: the constant \<open>errors.BugRemediation\<close> is not among the sources;
  it is the "please file an issue"-style remediation hint. A remediation is a text for
  the user, and this one is kept as a name of its own beside other texts.
\<close>

datatype remediation =
    BugRemediation
  | Remediation string

datatype error =
    Err string
  | Errorf string "error option list"
  | RemediationError error remediation
  | ErrInvalidVerboseJSONCombo


section \<open>The publish command (pkg/commands/compute/publish.go)\<close>

text \<open>
  Modelled from the spec: the declarations of \<open>cmd.OptionalBool\<close>, \<open>cmd.OptionalString\<close>,
  \<open>cmd.OptionalInt\<close>, \<open>cmd.OptionalServiceNameID\<close> and \<open>cmd.OptionalServiceVersion\<close> are
  not among the sources; an optional field is "a (value, was-explicitly-set) pair". The
  code reads the fields \<open>WasSet\<close> and \<open>Value\<close>.
\<close>

record 'a Optional =
  WasSet :: bool
  Value :: 'a

text \<open>
  The nested commands, with the fields that \<open>PublishCommand.Exec\<close> writes. Their
  declarations are not among the sources; each field has the type of the value that
  \<open>Exec\<close> assigns to it. Go's \<open>int\<close> is modelled as \<open>int\<close>: the code only compares these
  numbers with 0 and copies them. The manifest data is a type parameter.
\<close>

record Flags =
  IncludeSrc :: bool
  Lang :: string
  PackageName :: string
  Timeout :: int

record 'm BuildCommand =
  Flags :: Flags
  build_Manifest :: 'm

record 'm DeployCommand =
  Comment :: "string Optional"
  Domain :: string
  deploy_Manifest :: 'm
  Package :: string
  ServiceName :: "string Optional"
  ServiceVersion :: "string Optional"
  StatusCheckCode :: int
  StatusCheckOff :: bool
  StatusCheckPath :: string
  StatusCheckTimeout :: int

record 'm PublishCommand =
  manifest :: 'm
  build :: "'m BuildCommand"
  deploy :: "'m DeployCommand"
  includeSrc :: "bool Optional"
  lang :: "string Optional"
  packageName :: "string Optional"
  timeout :: "int Optional"
  comment :: "string Optional"
  domain :: "string Optional"
  pkg :: "string Optional"
  serviceName :: "string Optional"
  serviceVersion :: "string Optional"
  statusCheckCode :: int
  statusCheckOff :: bool
  statusCheckPath :: string
  statusCheckTimeout :: int

text \<open>
  What \<open>Exec\<close> does to its collaborators, in order: the nested commands' \<open>Exec\<close> (with
  the nested command as it is at the call), \<open>text.Break(out)\<close> and
  \<open>c.Globals.ErrLog.Add(err)\<close>.
\<close>

datatype 'm publish_event =
    BuildExec "'m BuildCommand"
  | TextBreak
  | DeployExec "'m DeployCommand"
  | ErrLogAdd error

text \<open>Lines 88-100: reset the fields on the BuildCommand based on PublishCommand values.\<close>

definition resetBuild :: "'m PublishCommand \<Rightarrow> 'm BuildCommand \<Rightarrow> 'm BuildCommand" where
  "resetBuild c b0 =
     (let b1 = (if WasSet (includeSrc c)
                then b0\<lparr>Flags := (Flags b0)\<lparr>IncludeSrc := Value (includeSrc c)\<rparr>\<rparr> else b0);
          b2 = (if WasSet (lang c)
                then b1\<lparr>Flags := (Flags b1)\<lparr>Lang := Value (lang c)\<rparr>\<rparr> else b1);
          b3 = (if WasSet (packageName c)
                then b2\<lparr>Flags := (Flags b2)\<lparr>PackageName := Value (packageName c)\<rparr>\<rparr> else b2);
          b4 = (if WasSet (timeout c)
                then b3\<lparr>Flags := (Flags b3)\<lparr>Timeout := Value (timeout c)\<rparr>\<rparr> else b3)
      in b4\<lparr>build_Manifest := manifest c\<rparr>)"

text \<open>Lines 111-136: reset the fields on the DeployCommand based on PublishCommand values.\<close>

definition resetDeploy :: "'m PublishCommand \<Rightarrow> 'm DeployCommand \<Rightarrow> 'm DeployCommand" where
  "resetDeploy c d0 =
     (let d1 = (if WasSet (pkg c) then d0\<lparr>Package := Value (pkg c)\<rparr> else d0);
          d2 = (if WasSet (serviceName c) then d1\<lparr>ServiceName := serviceName c\<rparr> else d1);
          d3 = (if WasSet (serviceVersion c) then d2\<lparr>ServiceVersion := serviceVersion c\<rparr> else d2);
          d4 = (if WasSet (domain c) then d3\<lparr>Domain := Value (domain c)\<rparr> else d3);
          d5 = (if WasSet (comment c) then d4\<lparr>Comment := comment c\<rparr> else d4);
          d6 = d5\<lparr>deploy_Manifest := manifest c\<rparr>;
          d7 = (if statusCheckCode c > 0 then d6\<lparr>StatusCheckCode := statusCheckCode c\<rparr> else d6);
          d8 = (if statusCheckOff c then d7\<lparr>StatusCheckOff := statusCheckOff c\<rparr> else d7);
          d9 = (if statusCheckTimeout c > 0
                then d8\<lparr>StatusCheckTimeout := statusCheckTimeout c\<rparr> else d8)
      in d9\<lparr>StatusCheckPath := statusCheckPath c\<rparr>)"

text \<open>
  \<open>PublishCommand.Exec\<close>. The nested commands' \<open>Exec\<close> methods are parameters: each
  takes the nested command (its receiver) and returns its error and the receiver as it
  leaves it. The result is the returned error, the publish command afterwards (with the
  nested commands it points to) and the collaborator calls made, in order.
\<close>

definition Exec ::
  "('m BuildCommand \<Rightarrow> error option \<times> 'm BuildCommand) \<Rightarrow>
   ('m DeployCommand \<Rightarrow> error option \<times> 'm DeployCommand) \<Rightarrow>
   'm PublishCommand \<Rightarrow> error option \<times> 'm PublishCommand \<times> 'm publish_event list" where
  "Exec build_Exec deploy_Exec c =
     (let b = resetBuild c (build c);
          (err, b') = build_Exec b;
          c1 = c\<lparr>build := b'\<rparr>
      in case err of
           Some e \<Rightarrow> (Some e, c1, [BuildExec b, ErrLogAdd e])
         | None \<Rightarrow>
             (let d = resetDeploy c1 (deploy c1);
                  (err, d') = deploy_Exec d;
                  c2 = c1\<lparr>deploy := d'\<rparr>
              in case err of
                   Some e \<Rightarrow> (Some e, c2, [BuildExec b, TextBreak, DeployExec d, ErrLogAdd e])
                 | None \<Rightarrow> (None, c2, [BuildExec b, TextBreak, DeployExec d])))"


section \<open>Dictionary setup (package setup)\<close>

text \<open>
  \<open>manifest.SetupDictionary\<close> and \<open>manifest.SetupDictionaryItem\<close>, the \<open>[setup]\<close> data
  of the project manifest. A Go map is given as the list of its entries in the order in
  which \<open>range\<close> visits them in the run at hand: each key once, in an order the language
  leaves open. The map values are pointers that the manifest decoder allocates; they are
  modelled as the structs they point to.
\<close>

record SetupDictionaryItem =
  setup_item_Value :: string
  setup_item_Description :: string

record SetupDictionary =
  setup_Items :: "(string \<times> SetupDictionaryItem) list"
  setup_Description :: string

record DictionaryItem =
  Key :: string
  item_Value :: string

record Dictionary =
  Name :: string
  Items :: "DictionaryItem list"

text \<open>
  The calls that \<open>Configure\<close> and \<open>Create\<close> make on their collaborators, each with its
  arguments and with what it returned:
  \<^item> \<open>text.Break\<close> and \<open>text.Output\<close> on \<open>d.Stdout\<close>;
  \<^item> \<open>text.Input(d.Stdout, prompt, d.Stdin)\<close>, which returns the line read or an error;
  \<^item> the methods of \<open>text.Spinner\<close>; \<open>Start\<close>, \<open>Stop\<close> and \<open>StopFail\<close> return an error;
  \<^item> \<open>APIClient.CreateDictionary\<close> with \<open>ServiceID\<close>, \<open>ServiceVersion\<close> and \<open>Name\<close>,
    returning an error or the new dictionary, of which the code uses the \<open>ID\<close>;
  \<^item> \<open>APIClient.CreateDictionaryItem\<close> with \<open>ServiceID\<close>, \<open>DictionaryID\<close>, \<open>ItemKey\<close>
    and \<open>ItemValue\<close>; the item it returns is dropped.
\<close>

text \<open>
  Modelled from the spec: \<open>api.Interface\<close> is not among the sources; it has "one method
  per remote operation (list/get/create/update/delete per resource kind)".
  \<open>DeleteDictionary\<close> (service, version, name) and \<open>DeleteDictionaryItem\<close> (service,
  dictionary, key) stand for the delete operations a compensating action would call;
  neither \<open>Configure\<close> nor \<open>Create\<close> makes such a call.
\<close>

datatype setup_event =
    StdoutBreak
  | StdoutOutput string
  | TextInput string "error + string"
  | SpinnerStart "error option"
  | SpinnerMessage string
  | SpinnerStopFailMessage string
  | SpinnerStopFail "error option"
  | SpinnerStopMessage string
  | SpinnerStop "error option"
  | CreateDictionary string int string "error + string"
  | CreateDictionaryItem string string string string "error option"
  | DeleteDictionary string int string
  | DeleteDictionaryItem string string string

fun is_api_call :: "setup_event \<Rightarrow> bool" where
  "is_api_call (CreateDictionary _ _ _ _) = True"
| "is_api_call (CreateDictionaryItem _ _ _ _ _) = True"
| "is_api_call (DeleteDictionary _ _ _) = True"
| "is_api_call (DeleteDictionaryItem _ _ _) = True"
| "is_api_call _ = False"

fun is_failed_api_call :: "setup_event \<Rightarrow> bool" where
  "is_failed_api_call (CreateDictionary _ _ _ (Inl _)) = True"
| "is_failed_api_call (CreateDictionaryItem _ _ _ _ (Some _)) = True"
| "is_failed_api_call _ = False"

fun is_delete_call :: "setup_event \<Rightarrow> bool" where
  "is_delete_call (DeleteDictionary _ _ _) = True"
| "is_delete_call (DeleteDictionaryItem _ _ _) = True"
| "is_delete_call _ = False"

fun is_input_read :: "setup_event \<Rightarrow> bool" where
  "is_input_read (TextInput _ _) = True"
| "is_input_read _ = False"

text \<open>
  The collaborators are interfaces whose implementations are not fixed here. What a
  method returns may depend on everything that has happened so far, so each method that
  returns something is a function of the calls made before it.
\<close>

record text_Spinner =
  Start :: "setup_event list \<Rightarrow> error option"
  Stop :: "setup_event list \<Rightarrow> error option"
  StopFail :: "setup_event list \<Rightarrow> error option"

record api_Interface =
  api_CreateDictionary :: "string \<Rightarrow> int \<Rightarrow> string \<Rightarrow> setup_event list \<Rightarrow> error + string"
  api_CreateDictionaryItem ::
    "string \<Rightarrow> string \<Rightarrow> string \<Rightarrow> string \<Rightarrow> setup_event list \<Rightarrow> error option"

text \<open>
  The \<open>Dictionaries\<close> struct. \<open>Spinner\<close> is an interface value that may be nil. \<open>Stdin\<close>
  is given by what \<open>text.Input\<close> returns when it reads from it (for a prompt, after the
  calls made so far); what is written to \<open>Stdout\<close> is in the list of calls.
\<close>

record Dictionaries =
  APIClient :: api_Interface
  AcceptDefaults :: bool
  NonInteractive :: bool
  Spinner :: "text_Spinner option"
  ServiceID :: string
  setup_ServiceVersion :: int
  Setup :: "(string \<times> SetupDictionary) list"
  Stdin :: "string \<Rightarrow> setup_event list \<Rightarrow> error + string"
  required :: "Dictionary list"

text \<open>A name or key between single quotes, as the format \<open>'%s'\<close> prints it.\<close>

definition quoted :: "string \<Rightarrow> string" where
  "quoted s = [CHR 0x27] @ s @ [CHR 0x27]"

text \<open>
  What \<open>Configure\<close> prints in interactive mode before the items of a dictionary (lines
  207-211) and before the prompt for an item (lines 229-234), the default value \<open>dv\<close> of
  an item (lines 217-220), and the prompt (line 221) as it is before \<open>text.BoldYellow\<close>
  colours it.
\<close>

definition dictionary_header :: "string \<Rightarrow> SetupDictionary \<Rightarrow> setup_event list" where
  "dictionary_header name settings =
     [StdoutBreak, StdoutOutput (''Configuring dictionary '' @ quoted name)] @
     (if setup_Description settings \<noteq> '''' then [StdoutOutput (setup_Description settings)]
      else [])"

definition item_header :: "string \<Rightarrow> SetupDictionaryItem \<Rightarrow> setup_event list" where
  "item_header key item =
     [StdoutBreak, StdoutOutput (''Create a dictionary key called '' @ quoted key)] @
     (if setup_item_Description item \<noteq> '''' then [StdoutOutput (setup_item_Description item)]
      else []) @
     [StdoutBreak]"

definition default_value :: "SetupDictionaryItem \<Rightarrow> string" where
  "default_value item =
     (if setup_item_Value item \<noteq> '''' then setup_item_Value item else ''example'')"

definition input_prompt :: "string \<Rightarrow> string" where
  "input_prompt dv = ''Value: ['' @ dv @ ''] ''"

text \<open>
  The inner loop of \<open>Configure\<close> (lines 216-250) over the items of one dictionary:
  \<open>items\<close> is the slice built so far and \<open>tr\<close> the calls made so far. The result is the
  error of an early return or the finished slice, with the calls made.
\<close>

fun Configure_items ::
  "Dictionaries \<Rightarrow> (string \<times> SetupDictionaryItem) list \<Rightarrow> DictionaryItem list \<Rightarrow>
   setup_event list \<Rightarrow> (error + DictionaryItem list) \<times> setup_event list" where
  "Configure_items d [] items tr = (Inr items, tr)"
| "Configure_items d ((key, item) # rest) items tr =
     (let dv = default_value item;
          prompt = input_prompt dv
      in if \<not> AcceptDefaults d \<and> \<not> NonInteractive d then
           (let tr1 = tr @ item_header key item;
                r = Stdin d prompt tr1;
                tr2 = tr1 @ [TextInput prompt r]
            in case r of
                 Inl err \<Rightarrow> (Inl (Errorf ''error reading prompt input: %w'' [Some err]), tr2)
               | Inr v \<Rightarrow>
                   Configure_items d rest
                     (items @ [\<lparr>Key = key, item_Value = (if v = '''' then dv else v)\<rparr>]) tr2)
         else Configure_items d rest (items @ [\<lparr>Key = key, item_Value = dv\<rparr>]) tr)"

text \<open>
  The outer loop of \<open>Configure\<close> (lines 205-256) over the declared dictionaries; \<open>req\<close>
  is \<open>d.required\<close> as built so far.
\<close>

fun Configure_dictionaries ::
  "Dictionaries \<Rightarrow> (string \<times> SetupDictionary) list \<Rightarrow> Dictionary list \<Rightarrow>
   setup_event list \<Rightarrow> error option \<times> Dictionary list \<times> setup_event list" where
  "Configure_dictionaries d [] req tr = (None, req, tr)"
| "Configure_dictionaries d ((name, settings) # rest) req tr =
     (let tr1 = (if \<not> AcceptDefaults d \<and> \<not> NonInteractive d
                 then tr @ dictionary_header name settings else tr)
      in case Configure_items d (setup_Items settings) [] tr1 of
           (Inl err, tr2) \<Rightarrow> (Some err, req, tr2)
         | (Inr items, tr2) \<Rightarrow>
             Configure_dictionaries d rest (req @ [\<lparr>Name = name, Items = items\<rparr>]) tr2)"

text \<open>
  \<open>Dictionaries.Configure\<close>: the returned error, the struct afterwards and the calls made.
\<close>

definition Configure ::
  "Dictionaries \<Rightarrow> setup_event list \<Rightarrow> error option \<times> Dictionaries \<times> setup_event list" where
  "Configure d tr =
     (case Configure_dictionaries d (Setup d) (required d) tr of
        (err, req, tr') \<Rightarrow> (err, d\<lparr>required := req\<rparr>, tr'))"

text \<open>The progress messages of \<open>Create\<close> (lines 275 and 304).\<close>

definition dictionary_msg :: "Dictionary \<Rightarrow> string" where
  "dictionary_msg dictionary = ''Creating dictionary '' @ quoted (Name dictionary)"

definition item_msg :: "DictionaryItem \<Rightarrow> string" where
  "item_msg item = ''Creating dictionary item '' @ quoted (Key item)"

text \<open>
  The inner loop of \<open>Create\<close> (lines 299-327) over the items of the dictionary with
  identifier \<open>dictID\<close>. In the branch where the API call failed, \<open>err := d.Spinner.StopFail()\<close>
  declares a new \<open>err\<close> in the block, and it is this variable that \<open>fmt.Errorf\<close> is given.
\<close>

fun Create_items ::
  "Dictionaries \<Rightarrow> text_Spinner \<Rightarrow> string \<Rightarrow> DictionaryItem list \<Rightarrow> setup_event list \<Rightarrow>
   error option \<times> setup_event list" where
  "Create_items d sp dictID [] tr = (None, tr)"
| "Create_items d sp dictID (item # rest) tr =
     (let err = Start sp tr;
          tr1 = tr @ [SpinnerStart err]
      in case err of
           Some e \<Rightarrow> (Some e, tr1)
         | None \<Rightarrow>
             (let msg = item_msg item;
                  tr2 = tr1 @ [SpinnerMessage (msg @ ''...'')];
                  err = api_CreateDictionaryItem (APIClient d) (ServiceID d) dictID (Key item)
                          (item_Value item) tr2;
                  tr3 = tr2 @ [CreateDictionaryItem (ServiceID d) dictID (Key item)
                                 (item_Value item) err]
              in case err of
                   Some _ \<Rightarrow>
                     (let tr4 = tr3 @ [SpinnerStopFailMessage msg];
                          err' = StopFail sp tr4;
                          tr5 = tr4 @ [SpinnerStopFail err']
                      in case err' of
                           Some e \<Rightarrow> (Some e, tr5)
                         | None \<Rightarrow>
                             (Some (Errorf ''error creating dictionary item: %w'' [err']), tr5))
                 | None \<Rightarrow>
                     (let tr4 = tr3 @ [SpinnerStopMessage msg];
                          err = Stop sp tr4;
                          tr5 = tr4 @ [SpinnerStop err]
                      in case err of
                           Some e \<Rightarrow> (Some e, tr5)
                         | None \<Rightarrow> Create_items d sp dictID rest tr5)))"

text \<open>
  The outer loop of \<open>Create\<close> (lines 270-329) over \<open>d.required\<close>, with the same
  redeclaration of \<open>err\<close> in the branch where \<open>CreateDictionary\<close> failed.
\<close>

fun Create_dictionaries ::
  "Dictionaries \<Rightarrow> text_Spinner \<Rightarrow> Dictionary list \<Rightarrow> setup_event list \<Rightarrow>
   error option \<times> setup_event list" where
  "Create_dictionaries d sp [] tr = (None, tr)"
| "Create_dictionaries d sp (dictionary # rest) tr =
     (let err = Start sp tr;
          tr1 = tr @ [SpinnerStart err]
      in case err of
           Some e \<Rightarrow> (Some e, tr1)
         | None \<Rightarrow>
             (let msg = dictionary_msg dictionary;
                  tr2 = tr1 @ [SpinnerMessage (msg @ ''...'')];
                  r = api_CreateDictionary (APIClient d) (ServiceID d) (setup_ServiceVersion d)
                        (Name dictionary) tr2;
                  tr3 = tr2 @ [CreateDictionary (ServiceID d) (setup_ServiceVersion d)
                                 (Name dictionary) r]
              in case r of
                   Inl _ \<Rightarrow>
                     (let tr4 = tr3 @ [SpinnerStopFailMessage msg];
                          err' = StopFail sp tr4;
                          tr5 = tr4 @ [SpinnerStopFail err']
                      in case err' of
                           Some e \<Rightarrow> (Some e, tr5)
                         | None \<Rightarrow> (Some (Errorf ''error creating dictionary: %w'' [err']), tr5))
                 | Inr dictID \<Rightarrow>
                     (let tr4 = tr3 @ [SpinnerStopMessage msg];
                          err = Stop sp tr4;
                          tr5 = tr4 @ [SpinnerStop err]
                      in case err of
                           Some e \<Rightarrow> (Some e, tr5)
                         | None \<Rightarrow>
                             (if length (Items dictionary) > 0 then
                                (case Create_items d sp dictID (Items dictionary) tr5 of
                                   (Some e, tr6) \<Rightarrow> (Some e, tr6)
                                 | (None, tr6) \<Rightarrow> Create_dictionaries d sp rest tr6)
                              else Create_dictionaries d sp rest tr5))))"

text \<open>\<open>Dictionaries.Create\<close>: the returned error and the calls made.\<close>

definition Create :: "Dictionaries \<Rightarrow> setup_event list \<Rightarrow> error option \<times> setup_event list" where
  "Create d tr =
     (case Spinner d of
        None \<Rightarrow>
          (Some (RemediationError
                   (Errorf ''internal logic error: no text.Progress configured for setup.Dictionaries'' [])
                   BugRemediation), tr)
      | Some sp \<Rightarrow> Create_dictionaries d sp (required d) tr)"

text \<open>\<open>Dictionaries.Predefined\<close>.\<close>

definition Predefined :: "Dictionaries \<Rightarrow> bool" where
  "Predefined d \<longleftrightarrow> length (Setup d) > 0"


section \<open>What the specification says of Configure\<close>

text \<open>
  The specification's fallback: "the item's declared default value, or the literal
  string \<open>"example"\<close> if no default was declared", for one item, for the items of a
  dictionary and for all declared dictionaries.
\<close>

definition spec_default_value :: "SetupDictionaryItem \<Rightarrow> string" where
  "spec_default_value item =
     (if setup_item_Value item = '''' then ''example'' else setup_item_Value item)"

definition spec_default_items :: "(string \<times> SetupDictionaryItem) list \<Rightarrow> DictionaryItem list" where
  "spec_default_items its =
     map (\<lambda>(key, item). \<lparr>Key = key, item_Value = spec_default_value item\<rparr>) its"

definition spec_default_dictionaries :: "(string \<times> SetupDictionary) list \<Rightarrow> Dictionary list" where
  "spec_default_dictionaries ds =
     map (\<lambda>(name, settings). \<lparr>Name = name, Items = spec_default_items (setup_Items settings)\<rparr>) ds"

text \<open>
  The resolution in interactive mode, as a function of the lines that were read:
  \<open>lines_read\<close> gives the lines that the successful calls of \<open>text.Input\<close> returned, in
  order; an item resolves to its key with the line, or with the fallback when the line
  is empty; each declared dictionary takes as many lines as it declares items and
  resolves to a dictionary of its name with one record per item, in order.
\<close>

fun lines_read :: "setup_event list \<Rightarrow> string list" where
  "lines_read [] = []"
| "lines_read (TextInput p (Inr v) # evs) = v # lines_read evs"
| "lines_read (ev # evs) = lines_read evs"

definition spec_resolve_item :: "string \<times> SetupDictionaryItem \<Rightarrow> string \<Rightarrow> DictionaryItem" where
  "spec_resolve_item declared line =
     \<lparr>Key = fst declared,
      item_Value = (if line = '''' then spec_default_value (snd declared) else line)\<rparr>"

fun spec_resolve_dictionaries ::
  "(string \<times> SetupDictionary) list \<Rightarrow> string list \<Rightarrow> Dictionary list" where
  "spec_resolve_dictionaries [] lines = []"
| "spec_resolve_dictionaries ((name, settings) # ds) lines =
     \<lparr>Name = name,
      Items = map (\<lambda>(declared, line). spec_resolve_item declared line)
                (zip (setup_Items settings) (take (length (setup_Items settings)) lines))\<rparr> #
     spec_resolve_dictionaries ds (drop (length (setup_Items settings)) lines)"

definition declared_items :: "(string \<times> SetupDictionary) list \<Rightarrow> nat" where
  "declared_items ds = sum_list (map (\<lambda>(name, settings). length (setup_Items settings)) ds)"


section \<open>List commands\<close>

text \<open>
  The \<open>Exec\<close> methods of the list commands: \<open>s3\<close>, \<open>datadog\<close>, \<open>cloudfiles\<close>, \<open>sftp\<close>,
  \<open>snippet\<close>, \<open>newrelic\<close> and \<open>configstoreentry\<close>.

  Every command embeds \<open>cmd.Base\<close>, which holds \<open>Globals\<close>. Of \<open>global.Data\<close> the
  commands read the field \<open>Flags.Verbose\<close> and call the method \<open>Verbose()\<close>, which is not
  among the sources: \<open>Verbose\<close> is what the method returns for the data at hand.
\<close>

record global_Data =
  Flags_Verbose :: bool
  Verbose :: bool

record cmd_Base =
  Globals :: global_Data

text \<open>
  \<open>ListCommand\<close> of the packages \<open>snippet\<close> and \<open>newrelic\<close>; the one of \<open>s3\<close>, \<open>datadog\<close>,
  \<open>cloudfiles\<close> and \<open>sftp\<close> has the field \<open>Input\<close> in addition, with the fields
  \<open>ServiceID\<close> and \<open>ServiceVersion\<close> that \<open>Exec\<close> sets; the one of \<open>configstoreentry\<close>
  embeds \<open>cmd.JSONOutput\<close> and has the input with the store identifier.
\<close>

record 'm snippet_ListCommand = cmd_Base +
  json :: bool
  list_manifest :: 'm
  list_serviceName :: "string Optional"
  list_serviceVersion :: "string Optional"

record ListInput =
  Input_ServiceID :: string
  Input_ServiceVersion :: int

record 'm s3_ListCommand = "'m snippet_ListCommand" +
  Input :: ListInput

record 'm configstoreentry_ListCommand = cmd_Base +
  JSONOutput_Enabled :: bool
  input_StoreID :: string
  configstoreentry_manifest :: 'm

text \<open>
  \<open>cmd.ServiceDetailsOpts\<close> without the API client and the writer, which are
  collaborators. \<open>cmd.ServiceDetails\<close> returns a service identifier, a version and an
  error; here it returns either the three of them with the version possibly nil (the
  error case), or the identifier and the number of the version.
\<close>

record 'm ServiceDetailsOpts =
  AllowActiveLocked :: bool
  opts_Manifest :: 'm
  ServiceNameFlag :: "string Optional"
  ServiceVersionFlag :: "string Optional"
  VerboseMode :: bool

datatype api_list_method =
  ListS3s | ListDatadog | ListCloudfiles | ListSFTPs | ListSnippets | ListNewRelic

text \<open>
  The collaborators of the list commands: service resolution, the list methods of the
  API client (for a service identifier and version number, or for a store identifier),
  \<open>json.Marshal\<close>, \<open>out.Write\<close>, and \<open>cmd.JSONOutput.WriteJSON\<close>, which is given whether
  JSON output is enabled and returns whether it wrote, with the error of writing.
  The resources listed are of a type parameter.
\<close>

record ('m, 'r) list_env =
  env_ServiceDetails :: "'m ServiceDetailsOpts \<Rightarrow> (string \<times> int option \<times> error) + (string \<times> int)"
  env_List :: "api_list_method \<Rightarrow> string \<Rightarrow> int \<Rightarrow> error + 'r list"
  env_ListConfigStoreItems :: "string \<Rightarrow> error + 'r list"
  env_Marshal :: "'r list \<Rightarrow> error + string"
  env_Write :: "string \<Rightarrow> error option"
  env_WriteJSON :: "bool \<Rightarrow> 'r list \<Rightarrow> bool \<times> error option"

text \<open>
  The calls a list command makes, in order. \<open>LogAdd\<close> is \<open>ErrLog.Add\<close> and
  \<open>LogAddWithContext\<close> is \<open>ErrLog.AddWithContext\<close> with the service identifier and the
  version of its context. Printing the table and the verbose listing are one call each.
\<close>

datatype ('m, 'r) list_event =
    ServiceDetails "'m ServiceDetailsOpts"
  | APIList api_list_method string int
  | APIListConfigStoreItems string
  | LogAdd error
  | LogAddWithContext error string "int option"
  | JSONMarshal "'r list"
  | OutWrite string
  | WriteJSON "'r list"
  | PrintTable "'r list"
  | PrintVerbose int "'r list"

text \<open>The options every list command gives to \<open>cmd.ServiceDetails\<close>.\<close>

definition ServiceDetails_opts ::
  "('m, 'z) snippet_ListCommand_scheme \<Rightarrow> 'm ServiceDetailsOpts" where
  "ServiceDetails_opts c =
     \<lparr>AllowActiveLocked = True, opts_Manifest = list_manifest c,
      ServiceNameFlag = list_serviceName c, ServiceVersionFlag = list_serviceVersion c,
      VerboseMode = Flags_Verbose (Globals c)\<rparr>"

text \<open>
  The JSON branch, which is the same text in the six commands that have it:
  \<open>json.Marshal\<close>, then \<open>out.Write\<close>, whose error is logged and wrapped.
\<close>

definition write_json ::
  "('m, 'r) list_env \<Rightarrow> 'r list \<Rightarrow> error option \<times> ('m, 'r) list_event list" where
  "write_json env xs =
     (case env_Marshal env xs of
        Inl err \<Rightarrow> (Some err, [JSONMarshal xs])
      | Inr data \<Rightarrow>
          (case env_Write env data of
             Some err \<Rightarrow>
               (Some (Errorf ''error: unable to write data to stdout: %w'' [Some err]),
                [JSONMarshal xs, OutWrite data, LogAdd err])
           | None \<Rightarrow> (None, [JSONMarshal xs, OutWrite data])))"

text \<open>
  \<open>Exec\<close> of \<open>s3\<close>, \<open>datadog\<close> and \<open>sftp\<close>, which differ in the list method of the API
  client and in what they print, and of \<open>cloudfiles\<close>, which logs the error of the API
  client with its context. The result is the error, the command afterwards and the
  calls made.
\<close>

definition s3_Exec ::
  "('m, 'r) list_env \<Rightarrow> 'm s3_ListCommand \<Rightarrow>
   error option \<times> 'm s3_ListCommand \<times> ('m, 'r) list_event list" where
  "s3_Exec env c =
     (if Verbose (Globals c) \<and> json c then (Some ErrInvalidVerboseJSONCombo, c, [])
      else
        (case env_ServiceDetails env (ServiceDetails_opts c) of
           Inl (serviceID, version, err) \<Rightarrow>
             (Some err, c,
              [ServiceDetails (ServiceDetails_opts c),
               LogAddWithContext err serviceID version])
         | Inr (serviceID, number) \<Rightarrow>
             (let c1 = c\<lparr>Input := (Input c)\<lparr>Input_ServiceID := serviceID,
                                               Input_ServiceVersion := number\<rparr>\<rparr>;
                  tr = [ServiceDetails (ServiceDetails_opts c), APIList ListS3s serviceID number]
              in case env_List env ListS3s serviceID number of
                   Inl err \<Rightarrow> (Some err, c1, tr @ [LogAdd err])
                 | Inr s3s \<Rightarrow>
                     if \<not> Verbose (Globals c1) then
                       (if json c1 then
                          (case write_json env s3s of (err, evs) \<Rightarrow> (err, c1, tr @ evs))
                        else (None, c1, tr @ [PrintTable s3s]))
                     else (None, c1, tr @ [PrintVerbose (Input_ServiceVersion (Input c1)) s3s]))))"

definition datadog_Exec ::
  "('m, 'r) list_env \<Rightarrow> 'm s3_ListCommand \<Rightarrow>
   error option \<times> 'm s3_ListCommand \<times> ('m, 'r) list_event list" where
  "datadog_Exec env c =
     (if Verbose (Globals c) \<and> json c then (Some ErrInvalidVerboseJSONCombo, c, [])
      else
        (case env_ServiceDetails env (ServiceDetails_opts c) of
           Inl (serviceID, version, err) \<Rightarrow>
             (Some err, c,
              [ServiceDetails (ServiceDetails_opts c),
               LogAddWithContext err serviceID version])
         | Inr (serviceID, number) \<Rightarrow>
             (let c1 = c\<lparr>Input := (Input c)\<lparr>Input_ServiceID := serviceID,
                                               Input_ServiceVersion := number\<rparr>\<rparr>;
                  tr = [ServiceDetails (ServiceDetails_opts c),
                        APIList ListDatadog serviceID number]
              in case env_List env ListDatadog serviceID number of
                   Inl err \<Rightarrow> (Some err, c1, tr @ [LogAdd err])
                 | Inr datadogs \<Rightarrow>
                     if \<not> Verbose (Globals c1) then
                       (if json c1 then
                          (case write_json env datadogs of (err, evs) \<Rightarrow> (err, c1, tr @ evs))
                        else (None, c1, tr @ [PrintTable datadogs]))
                     else
                       (None, c1, tr @ [PrintVerbose (Input_ServiceVersion (Input c1)) datadogs]))))"

definition cloudfiles_Exec ::
  "('m, 'r) list_env \<Rightarrow> 'm s3_ListCommand \<Rightarrow>
   error option \<times> 'm s3_ListCommand \<times> ('m, 'r) list_event list" where
  "cloudfiles_Exec env c =
     (if Verbose (Globals c) \<and> json c then (Some ErrInvalidVerboseJSONCombo, c, [])
      else
        (case env_ServiceDetails env (ServiceDetails_opts c) of
           Inl (serviceID, version, err) \<Rightarrow>
             (Some err, c,
              [ServiceDetails (ServiceDetails_opts c),
               LogAddWithContext err serviceID version])
         | Inr (serviceID, number) \<Rightarrow>
             (let c1 = c\<lparr>Input := (Input c)\<lparr>Input_ServiceID := serviceID,
                                               Input_ServiceVersion := number\<rparr>\<rparr>;
                  tr = [ServiceDetails (ServiceDetails_opts c),
                        APIList ListCloudfiles serviceID number]
              in case env_List env ListCloudfiles serviceID number of
                   Inl err \<Rightarrow> (Some err, c1, tr @ [LogAddWithContext err serviceID (Some number)])
                 | Inr cloudfiles \<Rightarrow>
                     if \<not> Verbose (Globals c1) then
                       (if json c1 then
                          (case write_json env cloudfiles of (err, evs) \<Rightarrow> (err, c1, tr @ evs))
                        else (None, c1, tr @ [PrintTable cloudfiles]))
                     else
                       (None, c1,
                        tr @ [PrintVerbose (Input_ServiceVersion (Input c1)) cloudfiles]))))"

definition sftp_Exec ::
  "('m, 'r) list_env \<Rightarrow> 'm s3_ListCommand \<Rightarrow>
   error option \<times> 'm s3_ListCommand \<times> ('m, 'r) list_event list" where
  "sftp_Exec env c =
     (if Verbose (Globals c) \<and> json c then (Some ErrInvalidVerboseJSONCombo, c, [])
      else
        (case env_ServiceDetails env (ServiceDetails_opts c) of
           Inl (serviceID, version, err) \<Rightarrow>
             (Some err, c,
              [ServiceDetails (ServiceDetails_opts c),
               LogAddWithContext err serviceID version])
         | Inr (serviceID, number) \<Rightarrow>
             (let c1 = c\<lparr>Input := (Input c)\<lparr>Input_ServiceID := serviceID,
                                               Input_ServiceVersion := number\<rparr>\<rparr>;
                  tr = [ServiceDetails (ServiceDetails_opts c),
                        APIList ListSFTPs serviceID number]
              in case env_List env ListSFTPs serviceID number of
                   Inl err \<Rightarrow> (Some err, c1, tr @ [LogAdd err])
                 | Inr sftps \<Rightarrow>
                     if \<not> Verbose (Globals c1) then
                       (if json c1 then
                          (case write_json env sftps of (err, evs) \<Rightarrow> (err, c1, tr @ evs))
                        else (None, c1, tr @ [PrintTable sftps]))
                     else (None, c1, tr @ [PrintVerbose (Input_ServiceVersion (Input c1)) sftps]))))"

text \<open>
  \<open>printSummary\<close> and \<open>Exec\<close> of \<open>snippet\<close> and \<open>newrelic\<close>. These commands build the
  input of the API call in \<open>constructInput\<close> and do not change the command.
\<close>

definition printSummary ::
  "('m, 'r) list_env \<Rightarrow> 'm snippet_ListCommand \<Rightarrow> 'r list \<Rightarrow>
   error option \<times> ('m, 'r) list_event list" where
  "printSummary env c xs = (if json c then write_json env xs else (None, [PrintTable xs]))"

definition snippet_Exec ::
  "('m, 'r) list_env \<Rightarrow> 'm snippet_ListCommand \<Rightarrow> error option \<times> ('m, 'r) list_event list" where
  "snippet_Exec env c =
     (if Verbose (Globals c) \<and> json c then (Some ErrInvalidVerboseJSONCombo, [])
      else
        (case env_ServiceDetails env (ServiceDetails_opts c) of
           Inl (serviceID, version, err) \<Rightarrow>
             (Some err,
              [ServiceDetails (ServiceDetails_opts c),
               LogAddWithContext err serviceID version])
         | Inr (serviceID, number) \<Rightarrow>
             (let tr = [ServiceDetails (ServiceDetails_opts c),
                        APIList ListSnippets serviceID number]
              in case env_List env ListSnippets serviceID number of
                   Inl err \<Rightarrow> (Some err, tr @ [LogAddWithContext err serviceID (Some number)])
                 | Inr vs \<Rightarrow>
                     if Verbose (Globals c) then (None, tr @ [PrintVerbose number vs])
                     else (case printSummary env c vs of (err, evs) \<Rightarrow> (err, tr @ evs)))))"

definition newrelic_Exec ::
  "('m, 'r) list_env \<Rightarrow> 'm snippet_ListCommand \<Rightarrow> error option \<times> ('m, 'r) list_event list" where
  "newrelic_Exec env c =
     (if Verbose (Globals c) \<and> json c then (Some ErrInvalidVerboseJSONCombo, [])
      else
        (case env_ServiceDetails env (ServiceDetails_opts c) of
           Inl (serviceID, version, err) \<Rightarrow>
             (Some err,
              [ServiceDetails (ServiceDetails_opts c),
               LogAddWithContext err serviceID version])
         | Inr (serviceID, number) \<Rightarrow>
             (let tr = [ServiceDetails (ServiceDetails_opts c),
                        APIList ListNewRelic serviceID number]
              in case env_List env ListNewRelic serviceID number of
                   Inl err \<Rightarrow> (Some err, tr @ [LogAddWithContext err serviceID (Some number)])
                 | Inr l \<Rightarrow>
                     if Verbose (Globals c) then (None, tr @ [PrintVerbose number l])
                     else (case printSummary env c l of (err, evs) \<Rightarrow> (err, tr @ evs)))))"

text \<open>
  \<open>Exec\<close> of \<open>configstoreentry\<close> (pkg/commands/configstoreentry/list.go), which resolves
  no service: it lists the items of the store and prints them as JSON or as a table.
\<close>

definition configstoreentry_Exec ::
  "('m, 'r) list_env \<Rightarrow> 'm configstoreentry_ListCommand \<Rightarrow>
   error option \<times> ('m, 'r) list_event list" where
  "configstoreentry_Exec env c =
     (if Verbose (Globals c) \<and> JSONOutput_Enabled c then (Some ErrInvalidVerboseJSONCombo, [])
      else
        (case env_ListConfigStoreItems env (input_StoreID c) of
           Inl err \<Rightarrow> (Some err, [APIListConfigStoreItems (input_StoreID c), LogAdd err])
         | Inr items \<Rightarrow>
             (case env_WriteJSON env (JSONOutput_Enabled c) items of
                (ok, err) \<Rightarrow>
                  if ok then (err, [APIListConfigStoreItems (input_StoreID c), WriteJSON items])
                  else (None, [APIListConfigStoreItems (input_StoreID c), WriteJSON items,
                               PrintTable items]))))"


section \<open>Example inputs\<close>

text \<open>
  A publish invocation where the user gave \<open>--include-source=false\<close>, an empty
  \<open>--language\<close>, \<open>--timeout 0\<close>, an empty \<open>--comment\<close>, an empty \<open>--domain\<close> and
  \<open>--service-name svc\<close>, and left every other flag at its default (\<open>status-check-path\<close>
  defaults to \<open>/\<close> and \<open>status-check-timeout\<close> to 120).
\<close>

definition example_build :: "unit BuildCommand" where
  "example_build =
     \<lparr>Flags = \<lparr>IncludeSrc = True, Lang = ''rust'', PackageName = ''app'', Timeout = 30\<rparr>,
      build_Manifest = ()\<rparr>"

definition example_deploy :: "unit DeployCommand" where
  "example_deploy =
     \<lparr>Comment = \<lparr>WasSet = False, Value = ''''\<rparr>, Domain = ''example.com'',
      deploy_Manifest = (), Package = ''pkg/app.tar.gz'',
      ServiceName = \<lparr>WasSet = False, Value = ''''\<rparr>,
      ServiceVersion = \<lparr>WasSet = False, Value = ''''\<rparr>,
      StatusCheckCode = 204, StatusCheckOff = False, StatusCheckPath = ''/healthz'',
      StatusCheckTimeout = 60\<rparr>"

definition example_publish :: "unit PublishCommand" where
  "example_publish =
     \<lparr>manifest = (), build = example_build, deploy = example_deploy,
      includeSrc = \<lparr>WasSet = True, Value = False\<rparr>,
      lang = \<lparr>WasSet = True, Value = ''''\<rparr>,
      packageName = \<lparr>WasSet = False, Value = ''''\<rparr>,
      timeout = \<lparr>WasSet = True, Value = 0\<rparr>,
      comment = \<lparr>WasSet = True, Value = ''''\<rparr>,
      domain = \<lparr>WasSet = True, Value = ''''\<rparr>,
      pkg = \<lparr>WasSet = False, Value = ''''\<rparr>,
      serviceName = \<lparr>WasSet = True, Value = ''svc''\<rparr>,
      serviceVersion = \<lparr>WasSet = False, Value = ''''\<rparr>,
      statusCheckCode = 0, statusCheckOff = False, statusCheckPath = ''/'',
      statusCheckTimeout = 120\<rparr>"

text \<open>Nested commands that succeed or fail and leave their receiver as it is.\<close>

definition exec_ok :: "'a \<Rightarrow> error option \<times> 'a" where
  "exec_ok x = (None, x)"

definition exec_fail :: "string \<Rightarrow> 'a \<Rightarrow> error option \<times> 'a" where
  "exec_fail msg x = (Some (Err msg), x)"

text \<open>
  Collaborators for the dictionary setup: a spinner that works, a spinner whose
  \<open>StopFail\<close> cannot write, an API client that creates everything (the dictionary
  \<open>name\<close> gets the identifier \<open>id-name\<close>), one that rejects the item with a given key and
  one that rejects every dictionary.
\<close>

definition spinner_ok :: text_Spinner where
  "spinner_ok = \<lparr>Start = (\<lambda>_. None), Stop = (\<lambda>_. None), StopFail = (\<lambda>_. None)\<rparr>"

definition spinner_stopfail_fails :: text_Spinner where
  "spinner_stopfail_fails =
     \<lparr>Start = (\<lambda>_. None), Stop = (\<lambda>_. None),
      StopFail = (\<lambda>_. Some (Err ''spinner: write failed''))\<rparr>"

definition api_ok :: api_Interface where
  "api_ok = \<lparr>api_CreateDictionary = (\<lambda>sid sv name _. Inr (''id-'' @ name)),
             api_CreateDictionaryItem = (\<lambda>sid did k v _. None)\<rparr>"

definition api_item_fails :: "string \<Rightarrow> api_Interface" where
  "api_item_fails key =
     \<lparr>api_CreateDictionary = (\<lambda>sid sv name _. Inr (''id-'' @ name)),
      api_CreateDictionaryItem =
        (\<lambda>sid did k v _. if k = key then Some (Err ''api: item rejected'') else None)\<rparr>"

definition api_dictionary_fails :: "api_Interface" where
  "api_dictionary_fails =
     \<lparr>api_CreateDictionary = (\<lambda>sid sv name _. Inl (Err ''api: dictionary rejected'')),
      api_CreateDictionaryItem = (\<lambda>sid did k v _. None)\<rparr>"

text \<open>
  A \<open>[setup]\<close> section with two dictionaries, the second with an item that declares no
  default, and the dictionaries it resolves to when every item takes its fallback.
\<close>

definition example_setup :: "(string \<times> SetupDictionary) list" where
  "example_setup =
    [(''dict_a'',
      \<lparr>setup_Items = [(''k1'', \<lparr>setup_item_Value = ''v1'', setup_item_Description = ''''\<rparr>)],
       setup_Description = ''first''\<rparr>),
     (''dict_b'',
      \<lparr>setup_Items = [(''k2'', \<lparr>setup_item_Value = '''', setup_item_Description = ''second key''\<rparr>),
                      (''k3'', \<lparr>setup_item_Value = ''v3'', setup_item_Description = ''''\<rparr>)],
       setup_Description = ''''\<rparr>)]"

definition example_required :: "Dictionary list" where
  "example_required =
    [\<lparr>Name = ''dict_a'', Items = [\<lparr>Key = ''k1'', item_Value = ''v1''\<rparr>]\<rparr>,
     \<lparr>Name = ''dict_b'', Items = [\<lparr>Key = ''k2'', item_Value = ''example''\<rparr>,
                                  \<lparr>Key = ''k3'', item_Value = ''v3''\<rparr>]\<rparr>]"

text \<open>
  The orchestrator in non-interactive mode, in interactive mode with a user who only
  presses return, in interactive mode with an input that cannot be read, and after a
  successful \<open>Configure\<close>.
\<close>

definition example_dictionaries :: Dictionaries where
  "example_dictionaries =
     \<lparr>APIClient = api_ok, AcceptDefaults = False, NonInteractive = True,
      Spinner = Some spinner_ok, ServiceID = ''svc'', setup_ServiceVersion = 3,
      Setup = example_setup, Stdin = (\<lambda>_ _. Inr ''''), required = []\<rparr>"

definition example_interactive :: Dictionaries where
  "example_interactive = example_dictionaries\<lparr>NonInteractive := False\<rparr>"

definition example_unreadable :: Dictionaries where
  "example_unreadable =
     example_dictionaries\<lparr>NonInteractive := False, Stdin := (\<lambda>_ _. Inl (Err ''read failed''))\<rparr>"

definition example_created :: Dictionaries where
  "example_created = example_dictionaries\<lparr>required := example_required\<rparr>"

text \<open>
  The orchestrator in interactive mode with a user who types \<open>blue\<close> at the prompt of the
  item whose default is \<open>v1\<close> and presses return at the other prompts, and the
  dictionaries this resolves to.
\<close>

definition example_typing :: Dictionaries where
  "example_typing =
     example_dictionaries
       \<lparr>NonInteractive := False,
        Stdin := (\<lambda>p _. if p = input_prompt ''v1'' then Inr ''blue'' else Inr '''')\<rparr>"

definition example_typed :: "Dictionary list" where
  "example_typed =
    [\<lparr>Name = ''dict_a'', Items = [\<lparr>Key = ''k1'', item_Value = ''blue''\<rparr>]\<rparr>,
     \<lparr>Name = ''dict_b'', Items = [\<lparr>Key = ''k2'', item_Value = ''example''\<rparr>,
                                  \<lparr>Key = ''k3'', item_Value = ''v3''\<rparr>]\<rparr>]"

text \<open>
  List commands given both \<open>--verbose\<close> and \<open>--json\<close>, with collaborators that would
  succeed: the service resolves to version 3 of \<open>svc\<close> and the API client lists two
  resources.
\<close>

definition example_list_env :: "(unit, string) list_env" where
  "example_list_env =
     \<lparr>env_ServiceDetails = (\<lambda>_. Inr (''svc'', 3)),
      env_List = (\<lambda>_ _ _. Inr [''first'', ''second'']),
      env_ListConfigStoreItems = (\<lambda>_. Inr [''first'', ''second'']),
      env_Marshal = (\<lambda>xs. Inr (concat xs)),
      env_Write = (\<lambda>_. None),
      env_WriteJSON = (\<lambda>enabled _. (enabled, None))\<rparr>"

definition example_snippet_list :: "unit snippet_ListCommand" where
  "example_snippet_list =
     \<lparr>Globals = \<lparr>Flags_Verbose = True, Verbose = True\<rparr>, json = True, list_manifest = (),
      list_serviceName = \<lparr>WasSet = False, Value = ''''\<rparr>,
      list_serviceVersion = \<lparr>WasSet = False, Value = ''latest''\<rparr>\<rparr>"

definition example_s3_list :: "unit s3_ListCommand" where
  "example_s3_list =
     \<lparr>Globals = \<lparr>Flags_Verbose = True, Verbose = True\<rparr>, json = True, list_manifest = (),
      list_serviceName = \<lparr>WasSet = False, Value = ''''\<rparr>,
      list_serviceVersion = \<lparr>WasSet = False, Value = ''latest''\<rparr>,
      Input = \<lparr>Input_ServiceID = '''', Input_ServiceVersion = 0\<rparr>\<rparr>"

definition example_configstoreentry_list :: "unit configstoreentry_ListCommand" where
  "example_configstoreentry_list =
     \<lparr>Globals = \<lparr>Flags_Verbose = True, Verbose = True\<rparr>, JSONOutput_Enabled = True, input_StoreID = ''store'',
      configstoreentry_manifest = ()\<rparr>"


section \<open>Properties of the publish command\<close>

lemma resetDeploy_build_update [simp]:
  "resetDeploy (c\<lparr>build := b\<rparr>) d = resetDeploy c d"
  by (simp add: resetDeploy_def Let_def)

lemma Exec_build_failure:
  assumes "build_Exec (resetBuild c (build c)) = (Some e, b')"
  shows "Exec build_Exec deploy_Exec c =
           (Some e, c\<lparr>build := b'\<rparr>, [BuildExec (resetBuild c (build c)), ErrLogAdd e])"
  using assms by (simp add: Exec_def Let_def)

lemma Exec_deploy_failure:
  assumes "build_Exec (resetBuild c (build c)) = (None, b')"
    and "deploy_Exec (resetDeploy c (deploy c)) = (Some e, d')"
  shows "Exec build_Exec deploy_Exec c =
           (Some e, c\<lparr>build := b', deploy := d'\<rparr>,
            [BuildExec (resetBuild c (build c)), TextBreak,
             DeployExec (resetDeploy c (deploy c)), ErrLogAdd e])"
  using assms by (simp add: Exec_def Let_def)

lemma Exec_success:
  assumes "build_Exec (resetBuild c (build c)) = (None, b')"
    and "deploy_Exec (resetDeploy c (deploy c)) = (None, d')"
  shows "Exec build_Exec deploy_Exec c =
           (None, c\<lparr>build := b', deploy := d'\<rparr>,
            [BuildExec (resetBuild c (build c)), TextBreak,
             DeployExec (resetDeploy c (deploy c))])"
  using assms by (simp add: Exec_def Let_def)

lemma Exec_trace_cases:
  "snd (snd (Exec build_Exec deploy_Exec c)) =
     (case fst (build_Exec (resetBuild c (build c))) of
        Some e \<Rightarrow> [BuildExec (resetBuild c (build c)), ErrLogAdd e]
      | None \<Rightarrow>
          [BuildExec (resetBuild c (build c)), TextBreak,
           DeployExec (resetDeploy c (deploy c))] @
          (case fst (deploy_Exec (resetDeploy c (deploy c))) of
             Some e \<Rightarrow> [ErrLogAdd e] | None \<Rightarrow> []))"
proof (cases "build_Exec (resetBuild c (build c))")
  case build: (Pair err b')
  show ?thesis
  proof (cases "deploy_Exec (resetDeploy c (deploy c))")
    case deploy: (Pair err' d')
    show ?thesis
      using build deploy by (simp add: Exec_def Let_def split: option.splits)
  qed
qed

text \<open>
  Claim C1. For each optional field of the publish command (include-source, language,
  package-name, build timeout, package path, service name, service version, domain,
  comment): after the copy step (\<open>resetBuild\<close> for the build fields, \<open>resetDeploy\<close> for
  the deploy fields) the nested command's field is the publish command's value when the
  marker is set, whatever the value, and is the nested command's previous value when the
  marker is not set. For service name, service version and comment the deploy field is
  itself an optional value and the whole pair is copied. \<open>Exec\<close> runs the build command
  on the result of its copy step and, when the build phase succeeds, the deploy command
  on the result of its copy step.
\<close>

theorem publish_wasset_propagation:
  "(WasSet (includeSrc c) \<longrightarrow> IncludeSrc (Flags (resetBuild c b)) = Value (includeSrc c)) \<and>
   (\<not> WasSet (includeSrc c) \<longrightarrow> IncludeSrc (Flags (resetBuild c b)) = IncludeSrc (Flags b)) \<and>
   (WasSet (lang c) \<longrightarrow> Lang (Flags (resetBuild c b)) = Value (lang c)) \<and>
   (\<not> WasSet (lang c) \<longrightarrow> Lang (Flags (resetBuild c b)) = Lang (Flags b)) \<and>
   (WasSet (packageName c) \<longrightarrow> PackageName (Flags (resetBuild c b)) = Value (packageName c)) \<and>
   (\<not> WasSet (packageName c) \<longrightarrow> PackageName (Flags (resetBuild c b)) = PackageName (Flags b)) \<and>
   (WasSet (timeout c) \<longrightarrow> Timeout (Flags (resetBuild c b)) = Value (timeout c)) \<and>
   (\<not> WasSet (timeout c) \<longrightarrow> Timeout (Flags (resetBuild c b)) = Timeout (Flags b)) \<and>
   (WasSet (pkg c) \<longrightarrow> Package (resetDeploy c d) = Value (pkg c)) \<and>
   (\<not> WasSet (pkg c) \<longrightarrow> Package (resetDeploy c d) = Package d) \<and>
   (WasSet (serviceName c) \<longrightarrow> ServiceName (resetDeploy c d) = serviceName c) \<and>
   (\<not> WasSet (serviceName c) \<longrightarrow> ServiceName (resetDeploy c d) = ServiceName d) \<and>
   (WasSet (serviceVersion c) \<longrightarrow> ServiceVersion (resetDeploy c d) = serviceVersion c) \<and>
   (\<not> WasSet (serviceVersion c) \<longrightarrow> ServiceVersion (resetDeploy c d) = ServiceVersion d) \<and>
   (WasSet (domain c) \<longrightarrow> Domain (resetDeploy c d) = Value (domain c)) \<and>
   (\<not> WasSet (domain c) \<longrightarrow> Domain (resetDeploy c d) = Domain d) \<and>
   (WasSet (comment c) \<longrightarrow> Comment (resetDeploy c d) = comment c) \<and>
   (\<not> WasSet (comment c) \<longrightarrow> Comment (resetDeploy c d) = Comment d) \<and>
   snd (snd (Exec build_Exec deploy_Exec c)) ! 0 = BuildExec (resetBuild c (build c)) \<and>
   (fst (build_Exec (resetBuild c (build c))) = None \<longrightarrow>
      snd (snd (Exec build_Exec deploy_Exec c)) ! 2 = DeployExec (resetDeploy c (deploy c)))"
proof -
  have "snd (snd (Exec build_Exec deploy_Exec c)) ! 0 = BuildExec (resetBuild c (build c)) \<and>
   (fst (build_Exec (resetBuild c (build c))) = None \<longrightarrow>
      snd (snd (Exec build_Exec deploy_Exec c)) ! 2 = DeployExec (resetDeploy c (deploy c)))"
    by (simp add: Exec_trace_cases split: option.splits)
  then show ?thesis
    by (simp add: resetBuild_def resetDeploy_def Let_def)
qed

theorem publish_wasset_propagation_witness:
  "WasSet (includeSrc example_publish) \<and> WasSet (lang example_publish) \<and>
   \<not> WasSet (packageName example_publish) \<and> WasSet (timeout example_publish) \<and>
   \<not> WasSet (pkg example_publish) \<and> WasSet (serviceName example_publish) \<and>
   \<not> WasSet (serviceVersion example_publish) \<and> WasSet (domain example_publish) \<and>
   WasSet (comment example_publish) \<and>
   Flags (resetBuild example_publish example_build) =
     \<lparr>IncludeSrc = False, Lang = '''', PackageName = ''app'', Timeout = 0\<rparr> \<and>
   Package (resetDeploy example_publish example_deploy) = ''pkg/app.tar.gz'' \<and>
   ServiceName (resetDeploy example_publish example_deploy) = \<lparr>WasSet = True, Value = ''svc''\<rparr> \<and>
   ServiceVersion (resetDeploy example_publish example_deploy) = \<lparr>WasSet = False, Value = ''''\<rparr> \<and>
   Domain (resetDeploy example_publish example_deploy) = '''' \<and>
   Comment (resetDeploy example_publish example_deploy) = \<lparr>WasSet = True, Value = ''''\<rparr> \<and>
   fst (exec_ok (resetBuild example_publish (build example_publish))) = None \<and>
   snd (snd (Exec exec_ok exec_ok example_publish)) ! 2 =
     DeployExec (resetDeploy example_publish (deploy example_publish))"
proof -
  have ok: "fst (exec_ok (resetBuild example_publish (build example_publish))) = None"
    by (simp add: exec_ok_def)
  have marks: "WasSet (includeSrc example_publish)" "WasSet (lang example_publish)"
    "\<not> WasSet (packageName example_publish)" "WasSet (timeout example_publish)"
    "\<not> WasSet (pkg example_publish)" "WasSet (serviceName example_publish)"
    "\<not> WasSet (serviceVersion example_publish)" "WasSet (domain example_publish)"
    "WasSet (comment example_publish)"
    by (simp_all add: example_publish_def)
  have vals: "Value (includeSrc example_publish) = False" "Value (lang example_publish) = ''''"
    "Value (timeout example_publish) = 0" "Value (domain example_publish) = ''''"
    "serviceName example_publish = \<lparr>WasSet = True, Value = ''svc''\<rparr>"
    "comment example_publish = \<lparr>WasSet = True, Value = ''''\<rparr>"
    by (simp_all add: example_publish_def)
  have old: "PackageName (Flags example_build) = ''app''"
    "Package example_deploy = ''pkg/app.tar.gz''"
    "ServiceVersion example_deploy = \<lparr>WasSet = False, Value = ''''\<rparr>"
    by (simp_all add: example_build_def example_deploy_def)
  have flags: "\<And>f :: Flags. f = \<lparr>IncludeSrc = IncludeSrc f, Lang = Lang f,
      PackageName = PackageName f, Timeout = Timeout f\<rparr>"
    by simp
  from publish_wasset_propagation [where c = example_publish and b = example_build
      and d = example_deploy and build_Exec = exec_ok and deploy_Exec = exec_ok]
  show ?thesis
    using marks vals old ok
    by (subst flags [of "Flags (resetBuild example_publish example_build)"]) simp
qed

text \<open>
  Claim C2. If the build phase returns an error, \<open>Exec\<close> returns that very error, its
  calls are the build command's \<open>Exec\<close> followed by \<open>ErrLog.Add\<close> of that error, and the
  deploy command's \<open>Exec\<close> is not among them. If the build phase succeeds and the deploy
  phase returns an error, \<open>Exec\<close> returns that very error and \<open>ErrLog.Add\<close> of it is the
  last call. \<open>ErrLog.Add\<close> returns nothing, so it has no part in the result.
\<close>

theorem publish_fail_fast:
  "(build_Exec (resetBuild c (build c)) = (Some e, b') \<longrightarrow>
      fst (Exec build_Exec deploy_Exec c) = Some e \<and>
      snd (snd (Exec build_Exec deploy_Exec c)) =
        [BuildExec (resetBuild c (build c)), ErrLogAdd e] \<and>
      (\<forall>d. DeployExec d \<notin> set (snd (snd (Exec build_Exec deploy_Exec c))))) \<and>
   (build_Exec (resetBuild c (build c)) = (None, b') \<and>
    deploy_Exec (resetDeploy c (deploy c)) = (Some e, d') \<longrightarrow>
      fst (Exec build_Exec deploy_Exec c) = Some e \<and>
      snd (snd (Exec build_Exec deploy_Exec c)) =
        [BuildExec (resetBuild c (build c)), TextBreak,
         DeployExec (resetDeploy c (deploy c)), ErrLogAdd e])"
  by (simp add: Exec_build_failure Exec_deploy_failure)

theorem publish_fail_fast_witness:
  "exec_fail ''build failed'' (resetBuild example_publish (build example_publish)) =
     (Some (Err ''build failed''), resetBuild example_publish (build example_publish)) \<and>
   fst (Exec (exec_fail ''build failed'') (exec_fail ''deploy failed'') example_publish) =
     Some (Err ''build failed'') \<and>
   snd (snd (Exec (exec_fail ''build failed'') (exec_fail ''deploy failed'') example_publish)) =
     [BuildExec (resetBuild example_publish (build example_publish)),
      ErrLogAdd (Err ''build failed'')] \<and>
   exec_ok (resetBuild example_publish (build example_publish)) =
     (None, resetBuild example_publish (build example_publish)) \<and>
   exec_fail ''deploy failed'' (resetDeploy example_publish (deploy example_publish)) =
     (Some (Err ''deploy failed''), resetDeploy example_publish (deploy example_publish)) \<and>
   fst (Exec exec_ok (exec_fail ''deploy failed'') example_publish) =
     Some (Err ''deploy failed'') \<and>
   snd (snd (Exec exec_ok (exec_fail ''deploy failed'') example_publish)) =
     [BuildExec (resetBuild example_publish (build example_publish)), TextBreak,
      DeployExec (resetDeploy example_publish (deploy example_publish)),
      ErrLogAdd (Err ''deploy failed'')]"
proof -
  have b: "exec_fail ''build failed'' (resetBuild example_publish (build example_publish)) =
     (Some (Err ''build failed''), resetBuild example_publish (build example_publish))"
    by (simp add: exec_fail_def)
  have ok: "exec_ok (resetBuild example_publish (build example_publish)) =
     (None, resetBuild example_publish (build example_publish))"
    by (simp add: exec_ok_def)
  have d: "exec_fail ''deploy failed'' (resetDeploy example_publish (deploy example_publish)) =
     (Some (Err ''deploy failed''), resetDeploy example_publish (deploy example_publish))"
    by (simp add: exec_fail_def)
  from publish_fail_fast [of "exec_fail ''build failed''" example_publish "Err ''build failed''"
      "resetBuild example_publish (build example_publish)" "exec_fail ''deploy failed''"
      "resetDeploy example_publish (deploy example_publish)"]
    publish_fail_fast [of exec_ok example_publish "Err ''deploy failed''"
      "resetBuild example_publish (build example_publish)" "exec_fail ''deploy failed''"
      "resetDeploy example_publish (deploy example_publish)"]
  show ?thesis using b ok d by simp
qed

text \<open>
  Claim C3. The status-check fields have no marker and are copied by value in the deploy
  copy step: the deploy command's \<open>StatusCheckCode\<close> becomes the publish command's value
  when that is strictly positive and keeps its own value otherwise (so 0 leaves it and
  200 replaces it), likewise \<open>StatusCheckTimeout\<close>, and \<open>StatusCheckOff\<close> becomes true
  when the publish flag is true and keeps its own value otherwise. When the build phase
  succeeds, the deploy command is executed with the result of this copy step.
\<close>

theorem publish_status_check_gating:
  "(0 < statusCheckCode c \<longrightarrow> StatusCheckCode (resetDeploy c d) = statusCheckCode c) \<and>
   (\<not> 0 < statusCheckCode c \<longrightarrow> StatusCheckCode (resetDeploy c d) = StatusCheckCode d) \<and>
   (statusCheckCode c = 0 \<longrightarrow> StatusCheckCode (resetDeploy c d) = StatusCheckCode d) \<and>
   (statusCheckCode c = 200 \<longrightarrow> StatusCheckCode (resetDeploy c d) = 200) \<and>
   (0 < statusCheckTimeout c \<longrightarrow> StatusCheckTimeout (resetDeploy c d) = statusCheckTimeout c) \<and>
   (\<not> 0 < statusCheckTimeout c \<longrightarrow>
      StatusCheckTimeout (resetDeploy c d) = StatusCheckTimeout d) \<and>
   (statusCheckOff c \<longrightarrow> StatusCheckOff (resetDeploy c d) = True) \<and>
   (\<not> statusCheckOff c \<longrightarrow> StatusCheckOff (resetDeploy c d) = StatusCheckOff d) \<and>
   (fst (build_Exec (resetBuild c (build c))) = None \<longrightarrow>
      snd (snd (Exec build_Exec deploy_Exec c)) ! 2 = DeployExec (resetDeploy c (deploy c)))"
  by (simp add: resetDeploy_def Let_def Exec_trace_cases)

theorem publish_status_check_gating_witness:
  "statusCheckCode example_publish = 0 \<and>
   StatusCheckCode (resetDeploy example_publish example_deploy) = 204 \<and>
   statusCheckCode (example_publish\<lparr>statusCheckCode := 200\<rparr>) = 200 \<and>
   StatusCheckCode (resetDeploy (example_publish\<lparr>statusCheckCode := 200\<rparr>) example_deploy) = 200 \<and>
   0 < statusCheckTimeout example_publish \<and>
   StatusCheckTimeout (resetDeploy example_publish example_deploy) = 120 \<and>
   \<not> 0 < statusCheckTimeout (example_publish\<lparr>statusCheckTimeout := - 1\<rparr>) \<and>
   StatusCheckTimeout (resetDeploy (example_publish\<lparr>statusCheckTimeout := - 1\<rparr>) example_deploy) = 60 \<and>
   \<not> statusCheckOff example_publish \<and>
   StatusCheckOff (resetDeploy example_publish example_deploy) = False \<and>
   statusCheckOff (example_publish\<lparr>statusCheckOff := True\<rparr>) \<and>
   StatusCheckOff (resetDeploy (example_publish\<lparr>statusCheckOff := True\<rparr>) example_deploy) = True \<and>
   fst (exec_ok (resetBuild example_publish (build example_publish))) = None \<and>
   snd (snd (Exec exec_ok exec_ok example_publish)) ! 2 =
     DeployExec (resetDeploy example_publish (deploy example_publish))"
proof -
  have pub: "statusCheckCode example_publish = 0" "statusCheckTimeout example_publish = 120"
    "\<not> statusCheckOff example_publish"
    by (simp_all add: example_publish_def)
  have dep: "StatusCheckCode example_deploy = 204" "StatusCheckTimeout example_deploy = 60"
    "StatusCheckOff example_deploy = False"
    by (simp_all add: example_deploy_def)
  have ok: "fst (exec_ok (resetBuild example_publish (build example_publish))) = None"
    by (simp add: exec_ok_def)
  from publish_status_check_gating [where c = example_publish and d = example_deploy
      and build_Exec = exec_ok and deploy_Exec = exec_ok]
    publish_status_check_gating [where c = "example_publish\<lparr>statusCheckCode := 200\<rparr>"
      and d = example_deploy and build_Exec = exec_ok and deploy_Exec = exec_ok]
    publish_status_check_gating [where c = "example_publish\<lparr>statusCheckTimeout := - 1\<rparr>"
      and d = example_deploy and build_Exec = exec_ok and deploy_Exec = exec_ok]
    publish_status_check_gating [where c = "example_publish\<lparr>statusCheckOff := True\<rparr>"
      and d = example_deploy and build_Exec = exec_ok and deploy_Exec = exec_ok]
  show ?thesis using pub dep ok by simp
qed

text \<open>
  Claim C10, as stated, fails: the assignment to the deploy command's \<open>StatusCheckPath\<close>
  comes after the build phase, and \<open>Exec\<close> returns before it when the build phase fails.
  With a deploy command whose \<open>StatusCheckPath\<close> is \<open>/healthz\<close>, the publish flag at its
  default \<open>/\<close> and a failing build, the deploy command still has \<open>/healthz\<close> after the
  publish invocation.
\<close>

theorem publish_status_check_path_counterexample:
  "fst (Exec (exec_fail ''build failed'') exec_ok example_publish) = Some (Err ''build failed'') \<and>
   statusCheckPath example_publish = ''/'' \<and>
   StatusCheckPath (deploy (fst (snd (Exec (exec_fail ''build failed'') exec_ok example_publish)))) =
     ''/healthz'' \<and>
   StatusCheckPath (deploy (fst (snd (Exec (exec_fail ''build failed'') exec_ok example_publish)))) \<noteq>
     statusCheckPath example_publish"
  by (simp add: Exec_def Let_def exec_fail_def example_publish_def example_deploy_def)

text \<open>
  Claim C10, amended. The deploy copy step sets the deploy command's \<open>StatusCheckPath\<close>
  to the publish command's \<open>statusCheckPath\<close> whatever that value is, with no marker and
  no test of the value; the two \<open>Manifest\<close> fields are the only other fields copied
  without a test. Whenever the build phase succeeds the deploy command is executed with
  that path, and it is never executed with another one. When the build phase fails, the
  deploy command is left as it was.
\<close>

theorem publish_status_check_path:
  "StatusCheckPath (resetDeploy c d) = statusCheckPath c \<and>
   deploy_Manifest (resetDeploy c d) = manifest c \<and>
   build_Manifest (resetBuild c b) = manifest c \<and>
   (fst (build_Exec (resetBuild c (build c))) = None \<longrightarrow>
      DeployExec (resetDeploy c (deploy c)) \<in> set (snd (snd (Exec build_Exec deploy_Exec c)))) \<and>
   (\<forall>d'. DeployExec d' \<in> set (snd (snd (Exec build_Exec deploy_Exec c))) \<longrightarrow>
      StatusCheckPath d' = statusCheckPath c) \<and>
   (fst (build_Exec (resetBuild c (build c))) \<noteq> None \<longrightarrow>
      deploy (fst (snd (Exec build_Exec deploy_Exec c))) = deploy c)"
proof -
  have path: "StatusCheckPath (resetDeploy c d) = statusCheckPath c" for d
    by (simp add: resetDeploy_def Let_def)
  have "deploy_Manifest (resetDeploy c d) = manifest c"
    by (simp add: resetDeploy_def Let_def)
  moreover have "build_Manifest (resetBuild c b) = manifest c"
    by (simp add: resetBuild_def Let_def)
  moreover have "fst (build_Exec (resetBuild c (build c))) = None \<longrightarrow>
      DeployExec (resetDeploy c (deploy c)) \<in> set (snd (snd (Exec build_Exec deploy_Exec c)))"
    by (simp add: Exec_trace_cases)
  moreover have "\<forall>d'. DeployExec d' \<in> set (snd (snd (Exec build_Exec deploy_Exec c))) \<longrightarrow>
      StatusCheckPath d' = statusCheckPath c"
    by (auto simp: Exec_trace_cases path split: option.splits)
  moreover have "fst (build_Exec (resetBuild c (build c))) \<noteq> None \<longrightarrow>
      deploy (fst (snd (Exec build_Exec deploy_Exec c))) = deploy c"
    by (auto simp: Exec_def Let_def split: prod.splits option.splits)
  ultimately show ?thesis using path by blast
qed

theorem publish_status_check_path_witness:
  "fst (exec_ok (resetBuild example_publish (build example_publish))) = None \<and>
   DeployExec (resetDeploy example_publish (deploy example_publish))
     \<in> set (snd (snd (Exec exec_ok exec_ok example_publish))) \<and>
   StatusCheckPath (resetDeploy example_publish (deploy example_publish)) = ''/'' \<and>
   fst (exec_fail ''build failed'' (resetBuild example_publish (build example_publish))) \<noteq> None \<and>
   deploy (fst (snd (Exec (exec_fail ''build failed'') exec_ok example_publish))) = example_deploy"
proof -
  have ok: "fst (exec_ok (resetBuild example_publish (build example_publish))) = None"
    by (simp add: exec_ok_def)
  have bad: "fst (exec_fail ''build failed'' (resetBuild example_publish (build example_publish)))
      \<noteq> None"
    by (simp add: exec_fail_def)
  have ex: "statusCheckPath example_publish = ''/''" "deploy example_publish = example_deploy"
    by (simp_all add: example_publish_def)
  from publish_status_check_path [where c = example_publish and d = "deploy example_publish"
      and b = "build example_publish" and build_Exec = exec_ok and deploy_Exec = exec_ok]
    publish_status_check_path [where c = example_publish and d = "deploy example_publish"
      and b = "build example_publish" and build_Exec = "exec_fail ''build failed''"
      and deploy_Exec = exec_ok]
  show ?thesis using ok bad ex by simp
qed


section \<open>Properties of Configure\<close>

lemma default_value_spec: "default_value item = spec_default_value item"
  by (simp add: default_value_def spec_default_value_def)

lemma default_value_nonempty: "default_value item \<noteq> ''''"
  by (simp add: default_value_def)

lemma Configure_items_Cons_defaults:
  assumes "AcceptDefaults d \<or> NonInteractive d"
  shows "Configure_items d ((key, item) # rest) items tr =
           Configure_items d rest (items @ [\<lparr>Key = key, item_Value = default_value item\<rparr>]) tr"
  using assms by (auto simp: Let_def)

lemma Configure_items_Cons_interactive:
  assumes "\<not> AcceptDefaults d" and "\<not> NonInteractive d"
  shows "Configure_items d ((key, item) # rest) items tr =
     (case Stdin d (input_prompt (default_value item)) (tr @ item_header key item) of
        Inl err \<Rightarrow>
          (Inl (Errorf ''error reading prompt input: %w'' [Some err]),
           tr @ item_header key item @ [TextInput (input_prompt (default_value item)) (Inl err)])
      | Inr v \<Rightarrow>
          Configure_items d rest
            (items @ [\<lparr>Key = key, item_Value = (if v = '''' then default_value item else v)\<rparr>])
            (tr @ item_header key item @ [TextInput (input_prompt (default_value item)) (Inr v)]))"
  using assms by (simp add: Let_def split: sum.splits)

lemmas Configure_items_Cons = Configure_items.simps(2)

declare Configure_items.simps(2) [simp del]

lemma Configure_items_defaults:
  assumes "AcceptDefaults d \<or> NonInteractive d"
  shows "Configure_items d its items tr = (Inr (items @ spec_default_items its), tr)"
  using assms
  by (induction its arbitrary: items)
     (auto simp: spec_default_items_def default_value_spec Configure_items_Cons_defaults)

lemma item_header_no_api: "ev \<in> set (item_header key item) \<Longrightarrow> \<not> is_api_call ev"
  by (auto simp: item_header_def)

lemma dictionary_header_no_api: "ev \<in> set (dictionary_header name settings) \<Longrightarrow> \<not> is_api_call ev"
  by (auto simp: dictionary_header_def)

lemma Configure_items_trace:
  "\<exists>evs. snd (Configure_items d its items tr) = tr @ evs \<and>
         (\<forall>ev \<in> set evs. \<not> is_api_call ev)"
proof (induction its arbitrary: items tr)
  case Nil
  show ?case by simp
next
  case (Cons a its)
  obtain key item where a: "a = (key, item)" by (cases a)
  show ?case
  proof (cases "\<not> AcceptDefaults d \<and> \<not> NonInteractive d")
    case False
    then have "AcceptDefaults d \<or> NonInteractive d" by blast
    then show ?thesis by (simp add: Configure_items_defaults)
  next
    case True
    let ?p = "input_prompt (default_value item)"
    show ?thesis
    proof (cases "Stdin d ?p (tr @ item_header key item)")
      case (Inl e)
      then have "snd (Configure_items d (a # its) items tr) =
          tr @ (item_header key item @ [TextInput ?p (Inl e)])"
        using True by (simp add: a Configure_items_Cons_interactive)
      moreover have "\<forall>ev \<in> set (item_header key item @ [TextInput ?p (Inl e)]). \<not> is_api_call ev"
        by (auto dest: item_header_no_api)
      ultimately show ?thesis by blast
    next
      case (Inr v)
      let ?step = "item_header key item @ [TextInput ?p (Inr v)]"
      from Cons.IH [of "items @ [\<lparr>Key = key, item_Value = (if v = [] then default_value item else v)\<rparr>]"
          "tr @ ?step"]
      obtain evs where evs: "snd (Configure_items d its
            (items @ [\<lparr>Key = key, item_Value = (if v = [] then default_value item else v)\<rparr>])
            (tr @ ?step)) = (tr @ ?step) @ evs"
        and api: "\<forall>ev \<in> set evs. \<not> is_api_call ev"
        by blast
      have "snd (Configure_items d (a # its) items tr) = tr @ (?step @ evs)"
        using True Inr evs by (simp add: a Configure_items_Cons_interactive)
      moreover have "\<forall>ev \<in> set (?step @ evs). \<not> is_api_call ev"
        using api by (auto dest: item_header_no_api)
      ultimately show ?thesis by blast
    qed
  qed
qed

lemma Configure_dictionaries_trace:
  "\<exists>evs. snd (snd (Configure_dictionaries d ds req tr)) = tr @ evs \<and>
         (\<forall>ev \<in> set evs. \<not> is_api_call ev)"
proof (induction ds arbitrary: req tr)
  case Nil
  show ?case by simp
next
  case (Cons a ds)
  obtain name settings where a: "a = (name, settings)" by (cases a)
  define hdr where "hdr = (if \<not> AcceptDefaults d \<and> \<not> NonInteractive d
                 then dictionary_header name settings else [])"
  have hdr: "(if \<not> AcceptDefaults d \<and> \<not> NonInteractive d
                 then tr @ dictionary_header name settings else tr) = tr @ hdr"
    by (simp add: hdr_def)
  have hdr_api: "\<forall>ev \<in> set hdr. \<not> is_api_call ev"
    by (auto simp: hdr_def dest: dictionary_header_no_api)
  obtain r tr2 where items: "Configure_items d (setup_Items settings) [] (tr @ hdr) = (r, tr2)"
    by (cases "Configure_items d (setup_Items settings) [] (tr @ hdr)")
  with Configure_items_trace [of d "setup_Items settings" "[]" "tr @ hdr"]
  obtain evs where evs: "tr2 = (tr @ hdr) @ evs" and api: "\<forall>ev \<in> set evs. \<not> is_api_call ev"
    by auto
  show ?case
  proof (cases r)
    case (Inl e)
    then have "snd (snd (Configure_dictionaries d (a # ds) req tr)) = tr @ (hdr @ evs)"
      using items evs by (simp add: a hdr del: append_assoc)
    then show ?thesis using hdr_api api by (metis Un_iff set_append)
  next
    case (Inr its)
    from Cons.IH [of "req @ [\<lparr>Name = name, Items = its\<rparr>]" tr2]
    obtain evs' where evs': "snd (snd (Configure_dictionaries d ds
        (req @ [\<lparr>Name = name, Items = its\<rparr>]) tr2)) = tr2 @ evs'"
      and api': "\<forall>ev \<in> set evs'. \<not> is_api_call ev"
      by blast
    have "snd (snd (Configure_dictionaries d (a # ds) req tr)) = tr @ (hdr @ evs @ evs')"
      using items evs evs' Inr by (simp add: a hdr del: append_assoc)
    moreover have "\<forall>ev \<in> set (hdr @ evs @ evs'). \<not> is_api_call ev"
      using hdr_api api api' by auto
    ultimately show ?thesis by blast
  qed
qed

lemma Configure_items_empty_lines:
  assumes "\<And>p h. Stdin d p h = Inr []"
  shows "fst (Configure_items d its items tr) = Inr (items @ spec_default_items its)"
proof (cases "AcceptDefaults d \<or> NonInteractive d")
  case True
  then show ?thesis by (simp add: Configure_items_defaults)
next
  case False
  then have i: "\<not> AcceptDefaults d" "\<not> NonInteractive d" by auto
  show ?thesis
    by (induction its arbitrary: items tr)
       (auto simp: spec_default_items_def default_value_spec
          Configure_items_Cons_interactive [OF i] assms)
qed

lemma Configure_items_error:
  assumes "fst (Configure_items d its items tr) = Inl e"
  shows "\<not> AcceptDefaults d \<and> \<not> NonInteractive d \<and>
         (\<exists>p e'. e = Errorf ''error reading prompt input: %w'' [Some e'] \<and>
                  snd (Configure_items d its items tr) \<noteq> [] \<and>
                  last (snd (Configure_items d its items tr)) = TextInput p (Inl e'))"
proof (cases "AcceptDefaults d \<or> NonInteractive d")
  case True
  with assms show ?thesis by (simp add: Configure_items_defaults)
next
  case False
  then have i: "\<not> AcceptDefaults d" "\<not> NonInteractive d" by auto
  show ?thesis
    using assms
  proof (induction its arbitrary: items tr)
    case Nil
    then show ?case by simp
  next
    case (Cons a its)
    obtain key item where a: "a = (key, item)" by (cases a)
    show ?case
    proof (cases "Stdin d (input_prompt (default_value item)) (tr @ item_header key item)")
      case (Inl e')
      with Cons.prems show ?thesis
        using i by (auto simp: a Configure_items_Cons_interactive [OF i])
    next
      case (Inr v)
      with Cons.prems Cons.IH show ?thesis
        by (simp add: a Configure_items_Cons_interactive [OF i])
    qed
  qed
qed

lemma lines_read_append: "lines_read (xs @ ys) = lines_read xs @ lines_read ys"
  by (induction xs rule: lines_read.induct) simp_all

lemma lines_read_item_header: "lines_read (item_header key item) = []"
  by (simp add: item_header_def)

lemma lines_read_dictionary_header: "lines_read (dictionary_header name settings) = []"
  by (simp add: dictionary_header_def)

lemma Configure_items_lines:
  assumes "\<not> AcceptDefaults d" and "\<not> NonInteractive d"
    and "fst (Configure_items d its items tr) = Inr res"
  shows "\<exists>evs. snd (Configure_items d its items tr) = tr @ evs \<and>
           length (lines_read evs) = length its \<and>
           res = items @ map (\<lambda>(declared, line). spec_resolve_item declared line)
                           (zip its (lines_read evs))"
  using assms(3)
proof (induction its arbitrary: items tr)
  case Nil
  then show ?case by simp
next
  case (Cons a its)
  note i = assms(1,2)
  obtain key item where a: "a = (key, item)" by (cases a)
  let ?p = "input_prompt (default_value item)"
  show ?case
  proof (cases "Stdin d ?p (tr @ item_header key item)")
    case (Inl e')
    with Cons.prems show ?thesis
      by (simp add: a Configure_items_Cons_interactive [OF i])
  next
    case (Inr v)
    let ?x = "\<lparr>Key = key, item_Value = (if v = [] then default_value item else v)\<rparr>"
    let ?step = "item_header key item @ [TextInput ?p (Inr v)]"
    have step: "Configure_items d (a # its) items tr =
        Configure_items d its (items @ [?x]) (tr @ ?step)"
      using Inr by (simp add: a Configure_items_Cons_interactive [OF i])
    with Cons.prems have "fst (Configure_items d its (items @ [?x]) (tr @ ?step)) = Inr res"
      by simp
    from Cons.IH [OF this]
    obtain evs where evs: "snd (Configure_items d its (items @ [?x]) (tr @ ?step)) =
        (tr @ ?step) @ evs"
      and len: "length (lines_read evs) = length its"
      and res: "res = (items @ [?x]) @ map (\<lambda>(declared, line). spec_resolve_item declared line)
                           (zip its (lines_read evs))"
      by blast
    have lines: "lines_read (?step @ evs) = v # lines_read evs"
      by (simp add: lines_read_append lines_read_item_header)
    have x: "?x = spec_resolve_item a v"
      by (simp add: spec_resolve_item_def a default_value_spec)
    have "snd (Configure_items d (a # its) items tr) = tr @ (?step @ evs)"
      using evs by (simp only: step append_assoc)
    moreover have "length (lines_read (?step @ evs)) = length (a # its)"
      using len by (simp only: lines) simp
    moreover have "res = items @ map (\<lambda>(declared, line). spec_resolve_item declared line)
                           (zip (a # its) (lines_read (?step @ evs)))"
      using res by (simp only: lines x) simp
    ultimately show ?thesis by blast
  qed
qed

lemma Configure_dictionaries_Cons:
  "Configure_dictionaries d ((name, settings) # rest) req tr =
     (case Configure_items d (setup_Items settings) []
             (tr @ (if \<not> AcceptDefaults d \<and> \<not> NonInteractive d
                    then dictionary_header name settings else [])) of
        (Inl err, tr2) \<Rightarrow> (Some err, req, tr2)
      | (Inr items, tr2) \<Rightarrow>
          Configure_dictionaries d rest (req @ [\<lparr>Name = name, Items = items\<rparr>]) tr2)"
  by (simp add: Let_def)

declare Configure_dictionaries.simps(2) [simp del]

lemma Configure_dictionaries_defaults:
  assumes "AcceptDefaults d \<or> NonInteractive d"
  shows "Configure_dictionaries d ds req tr = (None, req @ spec_default_dictionaries ds, tr)"
  using assms
proof (induction ds arbitrary: req)
  case Nil
  then show ?case by (simp add: spec_default_dictionaries_def)
next
  case (Cons a ds)
  obtain name settings where a: "a = (name, settings)" by (cases a)
  from Cons.prems have m: "(\<not> AcceptDefaults d \<and> \<not> NonInteractive d) = False" by blast
  show ?case
    using Cons.IH [OF Cons.prems]
    by (simp add: a m Configure_dictionaries_Cons Configure_items_defaults [OF Cons.prems]
        spec_default_dictionaries_def)
qed

lemma Configure_dictionaries_empty_lines:
  assumes "\<And>p h. Stdin d p h = Inr []"
  shows "fst (Configure_dictionaries d ds req tr) = None \<and>
         fst (snd (Configure_dictionaries d ds req tr)) = req @ spec_default_dictionaries ds"
proof (induction ds arbitrary: req tr)
  case Nil
  then show ?case by (simp add: spec_default_dictionaries_def)
next
  case (Cons a ds)
  obtain name settings where a: "a = (name, settings)" by (cases a)
  let ?tr1 = "tr @ (if \<not> AcceptDefaults d \<and> \<not> NonInteractive d
                    then dictionary_header name settings else [])"
  obtain r tr2 where run: "Configure_items d (setup_Items settings) [] ?tr1 = (r, tr2)"
    by (cases "Configure_items d (setup_Items settings) [] ?tr1")
  with Configure_items_empty_lines [OF assms, of "setup_Items settings" "[]" ?tr1]
  have r: "r = Inr (spec_default_items (setup_Items settings))"
    by simp
  show ?case
    using Cons.IH [of "req @ [\<lparr>Name = name, Items = spec_default_items (setup_Items settings)\<rparr>]" tr2]
      run r
    by (simp add: a Configure_dictionaries_Cons spec_default_dictionaries_def)
qed

lemma Configure_dictionaries_error:
  assumes "fst (Configure_dictionaries d ds req tr) = Some e"
  shows "\<not> AcceptDefaults d \<and> \<not> NonInteractive d \<and>
         (\<exists>p e'. e = Errorf ''error reading prompt input: %w'' [Some e'] \<and>
                  snd (snd (Configure_dictionaries d ds req tr)) \<noteq> [] \<and>
                  last (snd (snd (Configure_dictionaries d ds req tr))) = TextInput p (Inl e'))"
  using assms
proof (induction ds arbitrary: req tr)
  case Nil
  then show ?case by simp
next
  case (Cons a ds)
  obtain name settings where a: "a = (name, settings)" by (cases a)
  let ?tr1 = "tr @ (if \<not> AcceptDefaults d \<and> \<not> NonInteractive d
                    then dictionary_header name settings else [])"
  obtain r tr2 where run: "Configure_items d (setup_Items settings) [] ?tr1 = (r, tr2)"
    by (cases "Configure_items d (setup_Items settings) [] ?tr1")
  show ?case
  proof (cases r)
    case (Inl err)
    with run Cons.prems have e: "err = e"
      by (simp add: a Configure_dictionaries_Cons)
    from run Inl e have "fst (Configure_items d (setup_Items settings) [] ?tr1) = Inl e"
      by simp
    from Configure_items_error [OF this] run Inl show ?thesis
      by (simp add: a Configure_dictionaries_Cons)
  next
    case (Inr items)
    with run Cons.prems Cons.IH [of "req @ [\<lparr>Name = name, Items = items\<rparr>]" tr2]
    show ?thesis
      by (simp add: a Configure_dictionaries_Cons)
  qed
qed

lemma Configure_dictionaries_lines:
  assumes "\<not> AcceptDefaults d" and "\<not> NonInteractive d"
    and "fst (Configure_dictionaries d ds req tr) = None"
  shows "\<exists>evs. snd (snd (Configure_dictionaries d ds req tr)) = tr @ evs \<and>
           length (lines_read evs) = declared_items ds \<and>
           fst (snd (Configure_dictionaries d ds req tr)) =
             req @ spec_resolve_dictionaries ds (lines_read evs)"
  using assms(3)
proof (induction ds arbitrary: req tr)
  case Nil
  then show ?case by (simp add: declared_items_def)
next
  case (Cons a ds)
  note i = assms(1,2)
  obtain name settings where a: "a = (name, settings)" by (cases a)
  let ?hdr = "dictionary_header name settings"
  have tr1: "tr @ (if \<not> AcceptDefaults d \<and> \<not> NonInteractive d then ?hdr else []) = tr @ ?hdr"
    using i by simp
  obtain r tr2 where run: "Configure_items d (setup_Items settings) [] (tr @ ?hdr) = (r, tr2)"
    by (cases "Configure_items d (setup_Items settings) [] (tr @ ?hdr)")
  show ?case
  proof (cases r)
    case (Inl err)
    with run Cons.prems show ?thesis
      by (simp add: a Configure_dictionaries_Cons tr1)
  next
    case (Inr its)
    let ?x = "\<lparr>Name = name, Items = its\<rparr>"
    have step: "Configure_dictionaries d (a # ds) req tr =
        Configure_dictionaries d ds (req @ [?x]) tr2"
      using run Inr by (simp add: a Configure_dictionaries_Cons tr1)
    from run Inr have "fst (Configure_items d (setup_Items settings) [] (tr @ ?hdr)) = Inr its"
      by simp
    from Configure_items_lines [OF i this] run
    obtain ievs where ievs: "tr2 = (tr @ ?hdr) @ ievs"
      and ilen: "length (lines_read ievs) = length (setup_Items settings)"
      and its: "its = map (\<lambda>(declared, line). spec_resolve_item declared line)
                           (zip (setup_Items settings) (lines_read ievs))"
      by auto
    from step Cons.prems have "fst (Configure_dictionaries d ds (req @ [?x]) tr2) = None"
      by simp
    from Cons.IH [OF this]
    obtain evs where evs: "snd (snd (Configure_dictionaries d ds (req @ [?x]) tr2)) = tr2 @ evs"
      and len: "length (lines_read evs) = declared_items ds"
      and req: "fst (snd (Configure_dictionaries d ds (req @ [?x]) tr2)) =
          (req @ [?x]) @ spec_resolve_dictionaries ds (lines_read evs)"
      by blast
    have lines: "lines_read (?hdr @ ievs @ evs) = lines_read ievs @ lines_read evs"
      by (simp add: lines_read_append lines_read_dictionary_header)
    have "snd (snd (Configure_dictionaries d (a # ds) req tr)) = tr @ (?hdr @ ievs @ evs)"
      using evs ievs by (simp only: step append_assoc)
    moreover have "length (lines_read (?hdr @ ievs @ evs)) = declared_items (a # ds)"
      using len ilen by (simp add: lines declared_items_def a)
    moreover have "fst (snd (Configure_dictionaries d (a # ds) req tr)) =
        req @ spec_resolve_dictionaries (a # ds) (lines_read (?hdr @ ievs @ evs))"
      unfolding step using req its ilen by (simp add: lines a)
    ultimately show ?thesis by blast
  qed
qed

lemma spec_default_example: "spec_default_dictionaries example_setup = example_required"
  by (simp add: spec_default_dictionaries_def spec_default_items_def spec_default_value_def
      example_setup_def example_required_def)

text \<open>
  Claim C4. In non-interactive or accept-defaults mode \<open>Configure\<close> returns no error,
  makes no call, and appends to \<open>required\<close> one dictionary per declared dictionary with
  one record per declared item, each with the fallback value: the declared value, or
  \<open>example\<close> when the declared value is empty. When every line read is empty the
  dictionaries appended are the same. If \<open>Configure\<close> returns an error, the mode is
  interactive, its last call is a \<open>text.Input\<close> that failed, and the error is
  \<open>error reading prompt input: %w\<close> wrapping the error of that call. If it returns no
  error in interactive mode, it has read one line per declared item and has appended one
  dictionary per declared dictionary with one record per declared item, whose value is
  the line read for the item, or the fallback value when that line is empty.
\<close>

theorem Configure_resolves:
  "(AcceptDefaults d \<or> NonInteractive d \<longrightarrow>
      Configure d tr =
        (None, d\<lparr>required := required d @ spec_default_dictionaries (Setup d)\<rparr>, tr)) \<and>
   ((\<forall>p h. Stdin d p h = Inr '''') \<longrightarrow>
      fst (Configure d tr) = None \<and>
      required (fst (snd (Configure d tr))) = required d @ spec_default_dictionaries (Setup d)) \<and>
   (\<forall>e. fst (Configure d tr) = Some e \<longrightarrow>
      \<not> AcceptDefaults d \<and> \<not> NonInteractive d \<and>
      (\<exists>p e'. e = Errorf ''error reading prompt input: %w'' [Some e'] \<and>
               snd (snd (Configure d tr)) \<noteq> [] \<and>
               last (snd (snd (Configure d tr))) = TextInput p (Inl e'))) \<and>
   (\<not> AcceptDefaults d \<and> \<not> NonInteractive d \<and> fst (Configure d tr) = None \<longrightarrow>
      (\<exists>evs. snd (snd (Configure d tr)) = tr @ evs \<and>
             length (lines_read evs) = declared_items (Setup d) \<and>
             required (fst (snd (Configure d tr))) =
               required d @ spec_resolve_dictionaries (Setup d) (lines_read evs)))"
proof -
  obtain err req tr' where run: "Configure_dictionaries d (Setup d) (required d) tr = (err, req, tr')"
    by (cases "Configure_dictionaries d (Setup d) (required d) tr") auto
  then have c: "Configure d tr = (err, d\<lparr>required := req\<rparr>, tr')"
    by (simp add: Configure_def)
  have "AcceptDefaults d \<or> NonInteractive d \<longrightarrow>
      Configure d tr =
        (None, d\<lparr>required := required d @ spec_default_dictionaries (Setup d)\<rparr>, tr)"
    by (simp add: Configure_def Configure_dictionaries_defaults)
  moreover have "(\<forall>p h. Stdin d p h = Inr '''') \<longrightarrow>
      fst (Configure d tr) = None \<and>
      required (fst (snd (Configure d tr))) = required d @ spec_default_dictionaries (Setup d)"
    using Configure_dictionaries_empty_lines [of d "Setup d" "required d" tr] run c
    by simp
  moreover have "\<forall>e. fst (Configure d tr) = Some e \<longrightarrow>
      \<not> AcceptDefaults d \<and> \<not> NonInteractive d \<and>
      (\<exists>p e'. e = Errorf ''error reading prompt input: %w'' [Some e'] \<and>
               snd (snd (Configure d tr)) \<noteq> [] \<and>
               last (snd (snd (Configure d tr))) = TextInput p (Inl e'))"
    using Configure_dictionaries_error [of d "Setup d" "required d" tr] run c
    by simp
  moreover have "\<not> AcceptDefaults d \<and> \<not> NonInteractive d \<and> fst (Configure d tr) = None \<longrightarrow>
      (\<exists>evs. snd (snd (Configure d tr)) = tr @ evs \<and>
             length (lines_read evs) = declared_items (Setup d) \<and>
             required (fst (snd (Configure d tr))) =
               required d @ spec_resolve_dictionaries (Setup d) (lines_read evs))"
    using Configure_dictionaries_lines [of d "Setup d" "required d" tr] run c
    by simp
  ultimately show ?thesis by blast
qed

lemma example_unreadable_run:
  "fst (Configure example_unreadable []) =
     Some (Errorf ''error reading prompt input: %w'' [Some (Err ''read failed'')])"
  by (simp add: Configure_def example_unreadable_def example_dictionaries_def example_setup_def
      Configure_dictionaries_Cons Configure_items_Cons_interactive)

lemma example_typing_run:
  "fst (Configure example_typing []) = None \<and>
   required (fst (snd (Configure example_typing []))) = example_typed \<and>
   lines_read (snd (snd (Configure example_typing []))) = [''blue'', '''', '''']"
  by (simp add: Configure_def example_typing_def example_dictionaries_def example_setup_def
      example_typed_def Configure_dictionaries_Cons Configure_items_Cons_interactive
      default_value_def input_prompt_def lines_read_append lines_read_item_header
      lines_read_dictionary_header)

theorem Configure_resolves_witness:
  "NonInteractive example_dictionaries \<and>
   Configure example_dictionaries [] =
     (None, example_dictionaries\<lparr>required := example_required\<rparr>, []) \<and>
   (\<forall>p h. Stdin example_interactive p h = Inr []) \<and>
   fst (Configure example_interactive []) = None \<and>
   required (fst (snd (Configure example_interactive []))) = example_required \<and>
   fst (Configure example_unreadable []) =
     Some (Errorf ''error reading prompt input: %w'' [Some (Err ''read failed'')]) \<and>
   \<not> AcceptDefaults example_unreadable \<and> \<not> NonInteractive example_unreadable \<and>
   (\<exists>p. last (snd (snd (Configure example_unreadable []))) =
          TextInput p (Inl (Err ''read failed''))) \<and>
   \<not> AcceptDefaults example_typing \<and> \<not> NonInteractive example_typing \<and>
   fst (Configure example_typing []) = None \<and>
   lines_read (snd (snd (Configure example_typing []))) = [''blue'', '''', ''''] \<and>
   declared_items example_setup = 3 \<and>
   required (fst (snd (Configure example_typing []))) =
     spec_resolve_dictionaries example_setup [''blue'', '''', ''''] \<and>
   required (fst (snd (Configure example_typing []))) = example_typed"
proof -
  have d: "NonInteractive example_dictionaries" "required example_dictionaries = []"
    "Setup example_dictionaries = example_setup"
    by (simp_all add: example_dictionaries_def)
  have i: "\<forall>p h. Stdin example_interactive p h = Inr []"
    "required example_interactive = []" "Setup example_interactive = example_setup"
    by (simp_all add: example_interactive_def example_dictionaries_def)
  have t: "\<not> AcceptDefaults example_typing" "\<not> NonInteractive example_typing"
    "required example_typing = []" "Setup example_typing = example_setup"
    by (simp_all add: example_typing_def example_dictionaries_def)
  note u = example_unreadable_run
  note tr = example_typing_run
  note dflt = Configure_resolves [of example_dictionaries "[]"]
  note inter = Configure_resolves [of example_interactive "[]"]
  note unread = Configure_resolves [of example_unreadable "[]"]
  note typing = Configure_resolves [of example_typing "[]"]
  have run: "Configure example_dictionaries [] =
      (None, example_dictionaries\<lparr>required := example_required\<rparr>, [])"
    using dflt d by (simp add: spec_default_example)
  from inter have "(\<forall>p h. Stdin example_interactive p h = Inr []) \<longrightarrow>
      fst (Configure example_interactive []) = None \<and>
      required (fst (snd (Configure example_interactive []))) =
        required example_interactive @ spec_default_dictionaries (Setup example_interactive)"
    by blast
  with i have interactive: "fst (Configure example_interactive []) = None \<and>
      required (fst (snd (Configure example_interactive []))) = example_required"
    by (simp add: spec_default_example)
  from unread have "\<forall>e. fst (Configure example_unreadable []) = Some e \<longrightarrow>
      \<not> AcceptDefaults example_unreadable \<and> \<not> NonInteractive example_unreadable \<and>
      (\<exists>p e'. e = Errorf ''error reading prompt input: %w'' [Some e'] \<and>
               snd (snd (Configure example_unreadable [])) \<noteq> [] \<and>
               last (snd (snd (Configure example_unreadable []))) = TextInput p (Inl e'))"
    by blast
  with u have unreadable: "\<not> AcceptDefaults example_unreadable \<and>
      \<not> NonInteractive example_unreadable \<and>
      (\<exists>p. last (snd (snd (Configure example_unreadable []))) =
          TextInput p (Inl (Err ''read failed'')))"
    by auto
  from typing have "\<not> AcceptDefaults example_typing \<and> \<not> NonInteractive example_typing \<and>
      fst (Configure example_typing []) = None \<longrightarrow>
      (\<exists>evs. snd (snd (Configure example_typing [])) = [] @ evs \<and>
             length (lines_read evs) = declared_items (Setup example_typing) \<and>
             required (fst (snd (Configure example_typing []))) =
               required example_typing @
               spec_resolve_dictionaries (Setup example_typing) (lines_read evs))"
    by blast
  with t tr have typed: "declared_items example_setup = 3 \<and>
      required (fst (snd (Configure example_typing []))) =
        spec_resolve_dictionaries example_setup [''blue'', '''', '''']"
    by auto
  from d(1) run i(1) interactive u unreadable t(1,2) tr typed show ?thesis
    by blast
qed


section \<open>Properties of Create\<close>

lemma Create_items_runs:
  assumes seq: "\<And>r evs1 evs2. P None evs1 \<Longrightarrow> P r evs2 \<Longrightarrow> P r (evs1 @ evs2)"
    and nil: "P None []"
    and start_err: "\<And>e. P (Some e) [SpinnerStart (Some e)]"
    and api_err_stopfail_err: "\<And>m sid did k v ae m' e.
      P (Some e) [SpinnerStart None, SpinnerMessage m, CreateDictionaryItem sid did k v (Some ae),
                  SpinnerStopFailMessage m', SpinnerStopFail (Some e)]"
    and api_err: "\<And>m sid did k v ae m'.
      P (Some (Errorf ''error creating dictionary item: %w'' [None]))
        [SpinnerStart None, SpinnerMessage m, CreateDictionaryItem sid did k v (Some ae),
         SpinnerStopFailMessage m', SpinnerStopFail None]"
    and stop_err: "\<And>m sid did k v m' e.
      P (Some e) [SpinnerStart None, SpinnerMessage m, CreateDictionaryItem sid did k v None,
                  SpinnerStopMessage m', SpinnerStop (Some e)]"
    and ok: "\<And>m sid did k v m'.
      P None [SpinnerStart None, SpinnerMessage m, CreateDictionaryItem sid did k v None,
              SpinnerStopMessage m', SpinnerStop None]"
  shows "\<exists>evs. snd (Create_items d sp dictID items tr) = tr @ evs \<and>
               P (fst (Create_items d sp dictID items tr)) evs"
proof (induction items arbitrary: tr)
  case Nil
  show ?case using nil by simp
next
  case (Cons item rest)
  let ?m = "item_msg item @ ''...''"
  let ?tr2 = "tr @ [SpinnerStart None, SpinnerMessage ?m]"
  let ?api = "api_CreateDictionaryItem (APIClient d) (ServiceID d) dictID (Key item)
                (item_Value item) ?tr2"
  let ?call = "CreateDictionaryItem (ServiceID d) dictID (Key item) (item_Value item)"
  show ?case
  proof (cases "Start sp tr")
    case (Some e)
    then have "Create_items d sp dictID (item # rest) tr = (Some e, tr @ [SpinnerStart (Some e)])"
      by (simp add: Let_def)
    then show ?thesis using start_err by simp
  next
    case start: None
    show ?thesis
    proof (cases ?api)
      case (Some ae)
      let ?tr4 = "?tr2 @ [?call (Some ae), SpinnerStopFailMessage (item_msg item)]"
      show ?thesis
      proof (cases "StopFail sp ?tr4")
        case None
        with start Some have "Create_items d sp dictID (item # rest) tr =
            (Some (Errorf ''error creating dictionary item: %w'' [None]),
             tr @ [SpinnerStart None, SpinnerMessage ?m, ?call (Some ae),
                   SpinnerStopFailMessage (item_msg item), SpinnerStopFail None])"
          by (simp add: Let_def)
        then show ?thesis using api_err by simp
      next
        case (Some e)
        with start \<open>?api = Some ae\<close> have "Create_items d sp dictID (item # rest) tr =
            (Some e,
             tr @ [SpinnerStart None, SpinnerMessage ?m, ?call (Some ae),
                   SpinnerStopFailMessage (item_msg item), SpinnerStopFail (Some e)])"
          by (simp add: Let_def)
        then show ?thesis using api_err_stopfail_err by simp
      qed
    next
      case api: None
      let ?tr4 = "?tr2 @ [?call None, SpinnerStopMessage (item_msg item)]"
      show ?thesis
      proof (cases "Stop sp ?tr4")
        case (Some e)
        with start api have "Create_items d sp dictID (item # rest) tr =
            (Some e,
             tr @ [SpinnerStart None, SpinnerMessage ?m, ?call None,
                   SpinnerStopMessage (item_msg item), SpinnerStop (Some e)])"
          by (simp add: Let_def)
        then show ?thesis using stop_err by simp
      next
        case None
        let ?step = "[SpinnerStart None, SpinnerMessage ?m, ?call None,
                   SpinnerStopMessage (item_msg item), SpinnerStop None]"
        from start api None have step: "Create_items d sp dictID (item # rest) tr =
            Create_items d sp dictID rest (tr @ ?step)"
          by (simp add: Let_def)
        from Cons.IH [of "tr @ ?step"]
        obtain evs where evs: "snd (Create_items d sp dictID rest (tr @ ?step)) = (tr @ ?step) @ evs"
          and P: "P (fst (Create_items d sp dictID rest (tr @ ?step))) evs"
          by blast
        have "snd (Create_items d sp dictID (item # rest) tr) = tr @ (?step @ evs)"
          using evs by (simp only: step append_assoc)
        moreover have "P (fst (Create_items d sp dictID (item # rest) tr)) (?step @ evs)"
          using seq [OF ok P] by (simp only: step)
        ultimately show ?thesis by blast
      qed
    qed
  qed
qed

lemma Create_dictionaries_runs:
  assumes seq: "\<And>r evs1 evs2. P None evs1 \<Longrightarrow> P r evs2 \<Longrightarrow> P r (evs1 @ evs2)"
    and nil: "P None []"
    and start_err: "\<And>e. P (Some e) [SpinnerStart (Some e)]"
    and item_api_err_stopfail_err: "\<And>m sid did k v ae m' e.
      P (Some e) [SpinnerStart None, SpinnerMessage m, CreateDictionaryItem sid did k v (Some ae),
                  SpinnerStopFailMessage m', SpinnerStopFail (Some e)]"
    and item_api_err: "\<And>m sid did k v ae m'.
      P (Some (Errorf ''error creating dictionary item: %w'' [None]))
        [SpinnerStart None, SpinnerMessage m, CreateDictionaryItem sid did k v (Some ae),
         SpinnerStopFailMessage m', SpinnerStopFail None]"
    and item_stop_err: "\<And>m sid did k v m' e.
      P (Some e) [SpinnerStart None, SpinnerMessage m, CreateDictionaryItem sid did k v None,
                  SpinnerStopMessage m', SpinnerStop (Some e)]"
    and item_ok: "\<And>m sid did k v m'.
      P None [SpinnerStart None, SpinnerMessage m, CreateDictionaryItem sid did k v None,
              SpinnerStopMessage m', SpinnerStop None]"
    and dict_api_err_stopfail_err: "\<And>m sid sv n ae m' e.
      P (Some e) [SpinnerStart None, SpinnerMessage m, CreateDictionary sid sv n (Inl ae),
                  SpinnerStopFailMessage m', SpinnerStopFail (Some e)]"
    and dict_api_err: "\<And>m sid sv n ae m'.
      P (Some (Errorf ''error creating dictionary: %w'' [None]))
        [SpinnerStart None, SpinnerMessage m, CreateDictionary sid sv n (Inl ae),
         SpinnerStopFailMessage m', SpinnerStopFail None]"
    and dict_stop_err: "\<And>m sid sv n did m' e.
      P (Some e) [SpinnerStart None, SpinnerMessage m, CreateDictionary sid sv n (Inr did),
                  SpinnerStopMessage m', SpinnerStop (Some e)]"
    and dict_ok: "\<And>m sid sv n did m'.
      P None [SpinnerStart None, SpinnerMessage m, CreateDictionary sid sv n (Inr did),
              SpinnerStopMessage m', SpinnerStop None]"
  shows "\<exists>evs. snd (Create_dictionaries d sp ds tr) = tr @ evs \<and>
               P (fst (Create_dictionaries d sp ds tr)) evs"
proof (induction ds arbitrary: tr)
  case Nil
  show ?case using nil by simp
next
  case (Cons dictionary rest)
  let ?m = "dictionary_msg dictionary @ ''...''"
  let ?tr2 = "tr @ [SpinnerStart None, SpinnerMessage ?m]"
  let ?api = "api_CreateDictionary (APIClient d) (ServiceID d) (setup_ServiceVersion d)
                (Name dictionary) ?tr2"
  let ?call = "CreateDictionary (ServiceID d) (setup_ServiceVersion d) (Name dictionary)"
  note items = Create_items_runs [of P, OF seq nil start_err item_api_err_stopfail_err
      item_api_err item_stop_err item_ok]
  show ?case
  proof (cases "Start sp tr")
    case (Some e)
    then have "Create_dictionaries d sp (dictionary # rest) tr =
        (Some e, tr @ [SpinnerStart (Some e)])"
      by (simp add: Let_def)
    then show ?thesis using start_err by simp
  next
    case start: None
    show ?thesis
    proof (cases ?api)
      case (Inl ae)
      let ?tr4 = "?tr2 @ [?call (Inl ae), SpinnerStopFailMessage (dictionary_msg dictionary)]"
      show ?thesis
      proof (cases "StopFail sp ?tr4")
        case None
        with start Inl have "Create_dictionaries d sp (dictionary # rest) tr =
            (Some (Errorf ''error creating dictionary: %w'' [None]),
             tr @ [SpinnerStart None, SpinnerMessage ?m, ?call (Inl ae),
                   SpinnerStopFailMessage (dictionary_msg dictionary), SpinnerStopFail None])"
          by (simp add: Let_def)
        then show ?thesis using dict_api_err by simp
      next
        case (Some e)
        with start Inl have "Create_dictionaries d sp (dictionary # rest) tr =
            (Some e,
             tr @ [SpinnerStart None, SpinnerMessage ?m, ?call (Inl ae),
                   SpinnerStopFailMessage (dictionary_msg dictionary), SpinnerStopFail (Some e)])"
          by (simp add: Let_def)
        then show ?thesis using dict_api_err_stopfail_err by simp
      qed
    next
      case (Inr dictID)
      let ?tr4 = "?tr2 @ [?call (Inr dictID), SpinnerStopMessage (dictionary_msg dictionary)]"
      show ?thesis
      proof (cases "Stop sp ?tr4")
        case (Some e)
        with start Inr have "Create_dictionaries d sp (dictionary # rest) tr =
            (Some e,
             tr @ [SpinnerStart None, SpinnerMessage ?m, ?call (Inr dictID),
                   SpinnerStopMessage (dictionary_msg dictionary), SpinnerStop (Some e)])"
          by (simp add: Let_def)
        then show ?thesis using dict_stop_err by simp
      next
        case stop: None
        let ?step = "[SpinnerStart None, SpinnerMessage ?m, ?call (Inr dictID),
                   SpinnerStopMessage (dictionary_msg dictionary), SpinnerStop None]"
        obtain ri tri where run: "Create_items d sp dictID (Items dictionary) (tr @ ?step) = (ri, tri)"
          by (cases "Create_items d sp dictID (Items dictionary) (tr @ ?step)")
        with items [of d sp dictID "Items dictionary" "tr @ ?step"]
        obtain ievs where ievs: "tri = (tr @ ?step) @ ievs" and Pi: "P ri ievs"
          by auto
        have Pstep: "P ri (?step @ ievs)"
          by (rule seq [OF dict_ok Pi])
        show ?thesis
        proof (cases ri)
          case (Some e)
          have "Create_dictionaries d sp (dictionary # rest) tr = (Some e, tr @ (?step @ ievs))"
          proof (cases "Items dictionary")
            case Nil
            with run Some show ?thesis by simp
          next
            case (Cons i others)
            with start Inr stop run Some ievs show ?thesis
              by (simp add: Let_def)
          qed
          then show ?thesis using Pstep Some by (metis fst_conv snd_conv)
        next
          case None
          have step: "Create_dictionaries d sp (dictionary # rest) tr =
              Create_dictionaries d sp rest (tr @ (?step @ ievs))"
          proof (cases "Items dictionary")
            case Nil
            with run have "ievs = []" using ievs by simp
            with Nil start Inr stop show ?thesis
              by (simp add: Let_def)
          next
            case (Cons i others)
            with start Inr stop run None ievs show ?thesis
              by (simp add: Let_def)
          qed
          from Cons.IH [of "tr @ (?step @ ievs)"]
          obtain evs where evs: "snd (Create_dictionaries d sp rest (tr @ (?step @ ievs))) =
              (tr @ (?step @ ievs)) @ evs"
            and P: "P (fst (Create_dictionaries d sp rest (tr @ (?step @ ievs)))) evs"
            by blast
          have "snd (Create_dictionaries d sp (dictionary # rest) tr) = tr @ ((?step @ ievs) @ evs)"
            using evs by (simp only: step append_assoc)
          moreover have "P (fst (Create_dictionaries d sp (dictionary # rest) tr))
              ((?step @ ievs) @ evs)"
            using seq [OF _ P, of "?step @ ievs"] Pstep None by (simp only: step)
          ultimately show ?thesis by blast
        qed
      qed
    qed
  qed
qed

lemma Create_runs:
  assumes seq: "\<And>r evs1 evs2. P None evs1 \<Longrightarrow> P r evs2 \<Longrightarrow> P r (evs1 @ evs2)"
    and nil: "P None []"
    and no_spinner: "\<And>e. P (Some e) []"
    and start_err: "\<And>e. P (Some e) [SpinnerStart (Some e)]"
    and item_api_err_stopfail_err: "\<And>m sid did k v ae m' e.
      P (Some e) [SpinnerStart None, SpinnerMessage m, CreateDictionaryItem sid did k v (Some ae),
                  SpinnerStopFailMessage m', SpinnerStopFail (Some e)]"
    and item_api_err: "\<And>m sid did k v ae m'.
      P (Some (Errorf ''error creating dictionary item: %w'' [None]))
        [SpinnerStart None, SpinnerMessage m, CreateDictionaryItem sid did k v (Some ae),
         SpinnerStopFailMessage m', SpinnerStopFail None]"
    and item_stop_err: "\<And>m sid did k v m' e.
      P (Some e) [SpinnerStart None, SpinnerMessage m, CreateDictionaryItem sid did k v None,
                  SpinnerStopMessage m', SpinnerStop (Some e)]"
    and item_ok: "\<And>m sid did k v m'.
      P None [SpinnerStart None, SpinnerMessage m, CreateDictionaryItem sid did k v None,
              SpinnerStopMessage m', SpinnerStop None]"
    and dict_api_err_stopfail_err: "\<And>m sid sv n ae m' e.
      P (Some e) [SpinnerStart None, SpinnerMessage m, CreateDictionary sid sv n (Inl ae),
                  SpinnerStopFailMessage m', SpinnerStopFail (Some e)]"
    and dict_api_err: "\<And>m sid sv n ae m'.
      P (Some (Errorf ''error creating dictionary: %w'' [None]))
        [SpinnerStart None, SpinnerMessage m, CreateDictionary sid sv n (Inl ae),
         SpinnerStopFailMessage m', SpinnerStopFail None]"
    and dict_stop_err: "\<And>m sid sv n did m' e.
      P (Some e) [SpinnerStart None, SpinnerMessage m, CreateDictionary sid sv n (Inr did),
                  SpinnerStopMessage m', SpinnerStop (Some e)]"
    and dict_ok: "\<And>m sid sv n did m'.
      P None [SpinnerStart None, SpinnerMessage m, CreateDictionary sid sv n (Inr did),
              SpinnerStopMessage m', SpinnerStop None]"
  shows "\<exists>evs. snd (Create d tr) = tr @ evs \<and> P (fst (Create d tr)) evs"
proof (cases "Spinner d")
  case None
  then show ?thesis using no_spinner by (simp add: Create_def)
next
  case (Some sp)
  then have "Create d tr = Create_dictionaries d sp (required d) tr"
    by (simp add: Create_def)
  then show ?thesis
    using Create_dictionaries_runs [of P d sp "required d" tr, OF seq nil start_err
        item_api_err_stopfail_err item_api_err item_stop_err item_ok
        dict_api_err_stopfail_err dict_api_err dict_stop_err dict_ok]
    by simp
qed

lemma Create_trace_extends: "\<exists>evs. snd (Create d tr) = tr @ evs"
  using Create_runs [of "\<lambda>r evs. True" d tr] by auto

lemma Create_no_input_read:
  assumes "snd (Create d tr) = tr @ evs"
  shows "\<forall>ev \<in> set evs. \<not> is_input_read ev"
  using Create_runs [of "\<lambda>r evs. \<forall>ev \<in> set evs. \<not> is_input_read ev" d tr] assms
  by auto

lemma Create_no_delete:
  assumes "snd (Create d tr) = tr @ evs"
  shows "\<forall>ev \<in> set evs. \<not> is_delete_call ev"
  using Create_runs [of "\<lambda>r evs. \<forall>ev \<in> set evs. \<not> is_delete_call ev" d tr] assms
  by auto

lemma Create_fail_fast:
  assumes "snd (Create d tr) = tr @ evs"
  shows "case dropWhile (\<lambda>ev. \<not> is_failed_api_call ev) evs of
           [] \<Rightarrow> True
         | ev # post \<Rightarrow> fst (Create d tr) \<noteq> None \<and> (\<forall>x \<in> set post. \<not> is_api_call x)"
proof -
  let ?P = "\<lambda>r evs. (r = None \<longrightarrow> (\<forall>ev \<in> set evs. \<not> is_failed_api_call ev)) \<and>
     (case dropWhile (\<lambda>ev. \<not> is_failed_api_call ev) evs of
        [] \<Rightarrow> True
      | ev # post \<Rightarrow> r \<noteq> None \<and> (\<forall>x \<in> set post. \<not> is_api_call x))"
  have "\<exists>evs. snd (Create d tr) = tr @ evs \<and> ?P (fst (Create d tr)) evs"
    by (rule Create_runs) (auto simp: dropWhile_append)
  with assms show ?thesis by auto
qed

lemma Create_api_error_dropped:
  assumes "snd (Create d tr) = tr @ evs" and "ev \<in> set evs" and "is_failed_api_call ev"
  shows "fst (Create d tr) = Some (Errorf ''error creating dictionary: %w'' [None]) \<or>
         fst (Create d tr) = Some (Errorf ''error creating dictionary item: %w'' [None]) \<or>
         (\<exists>e. fst (Create d tr) = Some e \<and> SpinnerStopFail (Some e) \<in> set evs)"
proof -
  let ?P = "\<lambda>r evs. (\<exists>ev \<in> set evs. is_failed_api_call ev) \<longrightarrow>
     r = Some (Errorf ''error creating dictionary: %w'' [None]) \<or>
     r = Some (Errorf ''error creating dictionary item: %w'' [None]) \<or>
     (\<exists>e. r = Some e \<and> SpinnerStopFail (Some e) \<in> set evs)"
  have "\<exists>evs. snd (Create d tr) = tr @ evs \<and> ?P (fst (Create d tr)) evs"
    by (rule Create_runs) auto
  with assms show ?thesis by auto
qed

lemma Create_StopFail_error_returned:
  assumes "snd (Create d tr) = tr @ evs" and "SpinnerStopFail (Some e) \<in> set evs"
  shows "fst (Create d tr) = Some e"
proof -
  let ?P = "\<lambda>r evs. \<forall>e. SpinnerStopFail (Some e) \<in> set evs \<longrightarrow> r = Some e"
  have "\<exists>evs. snd (Create d tr) = tr @ evs \<and> ?P (fst (Create d tr)) evs"
    by (rule Create_runs) auto
  with assms show ?thesis by auto
qed

lemma Configure_trace:
  "\<exists>evs. snd (snd (Configure d tr)) = tr @ evs \<and> (\<forall>ev \<in> set evs. \<not> is_api_call ev)"
proof -
  obtain err req tr' where run: "Configure_dictionaries d (Setup d) (required d) tr = (err, req, tr')"
    by (cases "Configure_dictionaries d (Setup d) (required d) tr") auto
  with Configure_dictionaries_trace [of d "Setup d" "required d" tr] show ?thesis
    by (simp add: Configure_def)
qed

lemma Create_items_Stdin: "Create_items (d\<lparr>Stdin := s\<rparr>) sp dictID items tr = Create_items d sp dictID items tr"
  by (induction items arbitrary: tr) (simp_all add: Let_def split: option.splits)

lemma Create_dictionaries_Stdin:
  "Create_dictionaries (d\<lparr>Stdin := s\<rparr>) sp ds tr = Create_dictionaries d sp ds tr"
  by (induction ds arbitrary: tr)
     (simp_all add: Let_def Create_items_Stdin split: option.splits sum.splits prod.splits)

lemma Create_Stdin: "Create (d\<lparr>Stdin := s\<rparr>) tr = Create d tr"
  by (simp add: Create_def Create_dictionaries_Stdin split: option.splits)

lemma Configure_items_APIClient:
  "Configure_items (d\<lparr>APIClient := a\<rparr>) its items tr = Configure_items d its items tr"
proof (induction its arbitrary: items tr)
  case Nil
  show ?case by simp
next
  case (Cons x its)
  obtain key item where x: "x = (key, item)" by (cases x)
  show ?case
    by (simp add: x Configure_items_Cons Let_def Cons.IH split: sum.splits)
qed

lemma Configure_dictionaries_APIClient:
  "Configure_dictionaries (d\<lparr>APIClient := a\<rparr>) ds req tr = Configure_dictionaries d ds req tr"
proof (induction ds arbitrary: req tr)
  case Nil
  show ?case by simp
next
  case (Cons x ds)
  obtain name settings where x: "x = (name, settings)" by (cases x)
  show ?case
    by (simp add: x Configure_dictionaries_Cons Configure_items_APIClient Cons.IH
        split: prod.splits sum.splits)
qed

text \<open>
  Claim C5. \<open>Configure\<close> only adds calls to those made before, none of the added calls
  is a call of the API client, and its result does not depend on the API client it was
  given. \<open>Create\<close> only adds calls, none of the added calls reads input, and its result
  does not depend on \<open>Stdin\<close>.
\<close>

theorem phase_separation:
  "(\<exists>evs. snd (snd (Configure d tr)) = tr @ evs \<and> (\<forall>ev \<in> set evs. \<not> is_api_call ev)) \<and>
   fst (Configure (d\<lparr>APIClient := a\<rparr>) tr) = fst (Configure d tr) \<and>
   required (fst (snd (Configure (d\<lparr>APIClient := a\<rparr>) tr))) =
     required (fst (snd (Configure d tr))) \<and>
   snd (snd (Configure (d\<lparr>APIClient := a\<rparr>) tr)) = snd (snd (Configure d tr)) \<and>
   (\<exists>evs. snd (Create d tr) = tr @ evs \<and> (\<forall>ev \<in> set evs. \<not> is_input_read ev)) \<and>
   Create (d\<lparr>Stdin := s\<rparr>) tr = Create d tr"
proof -
  obtain evs where evs: "snd (Create d tr) = tr @ evs"
    using Create_trace_extends by blast
  then have "\<exists>evs. snd (Create d tr) = tr @ evs \<and> (\<forall>ev \<in> set evs. \<not> is_input_read ev)"
    using Create_no_input_read by blast
  moreover have "fst (Configure (d\<lparr>APIClient := a\<rparr>) tr) = fst (Configure d tr) \<and>
      required (fst (snd (Configure (d\<lparr>APIClient := a\<rparr>) tr))) =
        required (fst (snd (Configure d tr))) \<and>
      snd (snd (Configure (d\<lparr>APIClient := a\<rparr>) tr)) = snd (snd (Configure d tr))"
    by (simp add: Configure_def Configure_dictionaries_APIClient split: prod.splits)
  ultimately show ?thesis
    using Configure_trace [of d tr] Create_Stdin [where d = d and s = s and tr = tr] by blast
qed

lemma example_interactive_trace:
  "TextInput (input_prompt ''v1'') (Inr []) \<in> set (snd (snd (Configure example_interactive [])))"
  by (simp add: Configure_def example_interactive_def example_dictionaries_def example_setup_def
      Configure_dictionaries_Cons Configure_items_Cons_interactive default_value_def)

lemma example_created_run:
  "Create example_created [] =
     (None,
      [SpinnerStart None,
       SpinnerMessage (''Creating dictionary '' @ quoted ''dict_a'' @ ''...''),
       CreateDictionary ''svc'' 3 ''dict_a'' (Inr ''id-dict_a''),
       SpinnerStopMessage (''Creating dictionary '' @ quoted ''dict_a''),
       SpinnerStop None,
       SpinnerStart None,
       SpinnerMessage (''Creating dictionary item '' @ quoted ''k1'' @ ''...''),
       CreateDictionaryItem ''svc'' ''id-dict_a'' ''k1'' ''v1'' None,
       SpinnerStopMessage (''Creating dictionary item '' @ quoted ''k1''),
       SpinnerStop None,
       SpinnerStart None,
       SpinnerMessage (''Creating dictionary '' @ quoted ''dict_b'' @ ''...''),
       CreateDictionary ''svc'' 3 ''dict_b'' (Inr ''id-dict_b''),
       SpinnerStopMessage (''Creating dictionary '' @ quoted ''dict_b''),
       SpinnerStop None,
       SpinnerStart None,
       SpinnerMessage (''Creating dictionary item '' @ quoted ''k2'' @ ''...''),
       CreateDictionaryItem ''svc'' ''id-dict_b'' ''k2'' ''example'' None,
       SpinnerStopMessage (''Creating dictionary item '' @ quoted ''k2''),
       SpinnerStop None,
       SpinnerStart None,
       SpinnerMessage (''Creating dictionary item '' @ quoted ''k3'' @ ''...''),
       CreateDictionaryItem ''svc'' ''id-dict_b'' ''k3'' ''v3'' None,
       SpinnerStopMessage (''Creating dictionary item '' @ quoted ''k3''),
       SpinnerStop None])"
  by (simp add: Create_def example_created_def example_dictionaries_def example_required_def
      spinner_ok_def api_ok_def Let_def dictionary_msg_def item_msg_def)

theorem phase_separation_witness:
  "filter is_api_call (snd (snd (Configure example_interactive []))) = [] \<and>
   TextInput (input_prompt ''v1'') (Inr []) \<in> set (snd (snd (Configure example_interactive []))) \<and>
   filter is_input_read (snd (Create example_created [])) = [] \<and>
   CreateDictionary ''svc'' 3 ''dict_a'' (Inr ''id-dict_a'') \<in> set (snd (Create example_created [])) \<and>
   Create (example_created\<lparr>Stdin := (\<lambda>p h. Inl (Err ''closed''))\<rparr>) [] = Create example_created []"
proof -
  have "CreateDictionary ''svc'' 3 ''dict_a'' (Inr ''id-dict_a'')
      \<in> set (snd (Create example_created []))"
    by (simp add: example_created_run)
  with phase_separation [where d = example_interactive and tr = "[]" and a = api_ok
      and s = "\<lambda>p h. Inl (Err ''closed'')"]
    phase_separation [where d = example_created and tr = "[]" and a = api_ok
      and s = "\<lambda>p h. Inl (Err ''closed'')"]
    example_interactive_trace
  show ?thesis by (auto simp: filter_empty_conv)
qed

text \<open>
  Claim C6. When no spinner is configured, \<open>Create\<close> returns a \<open>RemediationError\<close> whose
  inner error is the internal-logic-error message and whose remediation is
  \<open>BugRemediation\<close>, and it makes no call at all: the calls made are those made before.
\<close>

theorem Create_requires_spinner:
  "Spinner d = None \<Longrightarrow>
   Create d tr =
     (Some (RemediationError
        (Errorf ''internal logic error: no text.Progress configured for setup.Dictionaries'' [])
        BugRemediation), tr)"
  by (simp add: Create_def)

theorem Create_requires_spinner_witness:
  "Spinner (example_created\<lparr>Spinner := None\<rparr>) = None \<and>
   Create (example_created\<lparr>Spinner := None\<rparr>) [] =
     (Some (RemediationError
        (Errorf ''internal logic error: no text.Progress configured for setup.Dictionaries'' [])
        BugRemediation), [])"
  using Create_requires_spinner [of "example_created\<lparr>Spinner := None\<rparr>" "[]"] by simp

text \<open>
  Claim C7 at two failing inputs. With a spinner that works and an API client whose
  \<open>CreateDictionary\<close> fails with the error \<open>api: dictionary rejected\<close>, \<open>Create\<close> returns
  the \<open>fmt.Errorf\<close> value whose \<open>%w\<close> operand is nil: the API error is not wrapped in
  it. The same happens when \<open>CreateDictionaryItem\<close> fails for the key \<open>k3\<close>. In both
  runs the failed call is the last call of the API client: the calls before it are the
  successful ones, in order, and nothing is deleted.
\<close>

theorem Create_failure_drops_api_error:
  "Create (example_created\<lparr>APIClient := api_dictionary_fails\<rparr>) [] =
     (Some (Errorf ''error creating dictionary: %w'' [None]),
      [SpinnerStart None,
       SpinnerMessage (''Creating dictionary '' @ quoted ''dict_a'' @ ''...''),
       CreateDictionary ''svc'' 3 ''dict_a'' (Inl (Err ''api: dictionary rejected'')),
       SpinnerStopFailMessage (''Creating dictionary '' @ quoted ''dict_a''),
       SpinnerStopFail None]) \<and>
   fst (Create (example_created\<lparr>APIClient := api_dictionary_fails\<rparr>) []) \<noteq>
     Some (Errorf ''error creating dictionary: %w'' [Some (Err ''api: dictionary rejected'')]) \<and>
   fst (Create (example_created\<lparr>APIClient := api_item_fails ''k3''\<rparr>) []) =
     Some (Errorf ''error creating dictionary item: %w'' [None]) \<and>
   filter is_api_call (snd (Create (example_created\<lparr>APIClient := api_item_fails ''k3''\<rparr>) [])) =
     [CreateDictionary ''svc'' 3 ''dict_a'' (Inr ''id-dict_a''),
      CreateDictionaryItem ''svc'' ''id-dict_a'' ''k1'' ''v1'' None,
      CreateDictionary ''svc'' 3 ''dict_b'' (Inr ''id-dict_b''),
      CreateDictionaryItem ''svc'' ''id-dict_b'' ''k2'' ''example'' None,
      CreateDictionaryItem ''svc'' ''id-dict_b'' ''k3'' ''v3'' (Some (Err ''api: item rejected''))]"
  by (simp add: Create_def example_created_def example_dictionaries_def example_required_def
      spinner_ok_def api_dictionary_fails_def api_item_fails_def Let_def dictionary_msg_def
      item_msg_def)

text \<open>
  Claim C8. Whenever a call of \<open>CreateDictionary\<close> or \<open>CreateDictionaryItem\<close> made by
  \<open>Create\<close> fails and the call of \<open>StopFail\<close> that follows it returns an error, \<open>Create\<close>
  returns the error of \<open>StopFail\<close>.
\<close>

theorem Create_spinner_error_supersedes:
  assumes "snd (Create d tr) =
             tr @ pre @ [ev, SpinnerStopFailMessage m, SpinnerStopFail (Some e)] @ post"
    and "is_failed_api_call ev"
  shows "fst (Create d tr) = Some e"
proof -
  have "SpinnerStopFail (Some e)
      \<in> set (pre @ [ev, SpinnerStopFailMessage m, SpinnerStopFail (Some e)] @ post)"
    by simp
  with assms(1) show ?thesis
    by (rule Create_StopFail_error_returned)
qed

lemma example_stopfail_run:
  "Create (example_created\<lparr>APIClient := api_dictionary_fails,
                           Spinner := Some spinner_stopfail_fails\<rparr>) [] =
     (Some (Err ''spinner: write failed''),
      [] @ [SpinnerStart None,
            SpinnerMessage (''Creating dictionary '' @ quoted ''dict_a'' @ ''...'')] @
      [CreateDictionary ''svc'' 3 ''dict_a'' (Inl (Err ''api: dictionary rejected'')),
       SpinnerStopFailMessage (''Creating dictionary '' @ quoted ''dict_a''),
       SpinnerStopFail (Some (Err ''spinner: write failed''))] @ [])"
  by (simp add: Create_def example_created_def example_dictionaries_def example_required_def
      spinner_stopfail_fails_def api_dictionary_fails_def Let_def dictionary_msg_def)

theorem Create_spinner_error_supersedes_witness:
  "snd (Create (example_created\<lparr>APIClient := api_dictionary_fails,
                                Spinner := Some spinner_stopfail_fails\<rparr>) []) =
     [] @ [SpinnerStart None,
           SpinnerMessage (''Creating dictionary '' @ quoted ''dict_a'' @ ''...'')] @
     [CreateDictionary ''svc'' 3 ''dict_a'' (Inl (Err ''api: dictionary rejected'')),
      SpinnerStopFailMessage (''Creating dictionary '' @ quoted ''dict_a''),
      SpinnerStopFail (Some (Err ''spinner: write failed''))] @ [] \<and>
   is_failed_api_call (CreateDictionary ''svc'' 3 ''dict_a'' (Inl (Err ''api: dictionary rejected''))) \<and>
   fst (Create (example_created\<lparr>APIClient := api_dictionary_fails,
                                Spinner := Some spinner_stopfail_fails\<rparr>) []) =
     Some (Err ''spinner: write failed'')"
proof -
  have run: "snd (Create (example_created\<lparr>APIClient := api_dictionary_fails,
                                Spinner := Some spinner_stopfail_fails\<rparr>) []) =
     [] @ [SpinnerStart None,
           SpinnerMessage (''Creating dictionary '' @ quoted ''dict_a'' @ ''...'')] @
     [CreateDictionary ''svc'' 3 ''dict_a'' (Inl (Err ''api: dictionary rejected'')),
      SpinnerStopFailMessage (''Creating dictionary '' @ quoted ''dict_a''),
      SpinnerStopFail (Some (Err ''spinner: write failed''))] @ []"
    by (simp only: example_stopfail_run snd_conv)
  have failed: "is_failed_api_call
      (CreateDictionary ''svc'' 3 ''dict_a'' (Inl (Err ''api: dictionary rejected'')))"
    by simp
  from Create_spinner_error_supersedes [OF run failed] run failed show ?thesis
    by blast
qed


section \<open>Properties of the list commands\<close>

text \<open>
  Claim C9. When verbose mode and JSON output are both enabled, \<open>Exec\<close> of each of the
  seven list commands returns \<open>ErrInvalidVerboseJSONCombo\<close> without having made any
  call: no service resolution, no call of the API client, no output, and the command is
  as before.
\<close>

theorem list_verbose_json_rejected:
  "(Verbose (Globals c) \<and> json c \<longrightarrow>
      s3_Exec env c = (Some ErrInvalidVerboseJSONCombo, c, []) \<and>
      datadog_Exec env c = (Some ErrInvalidVerboseJSONCombo, c, []) \<and>
      cloudfiles_Exec env c = (Some ErrInvalidVerboseJSONCombo, c, []) \<and>
      sftp_Exec env c = (Some ErrInvalidVerboseJSONCombo, c, [])) \<and>
   (Verbose (Globals c') \<and> json c' \<longrightarrow>
      snippet_Exec env c' = (Some ErrInvalidVerboseJSONCombo, []) \<and>
      newrelic_Exec env c' = (Some ErrInvalidVerboseJSONCombo, [])) \<and>
   (Verbose (Globals c'') \<and> JSONOutput_Enabled c'' \<longrightarrow>
      configstoreentry_Exec env c'' = (Some ErrInvalidVerboseJSONCombo, []))"
  by (simp add: s3_Exec_def datadog_Exec_def cloudfiles_Exec_def sftp_Exec_def snippet_Exec_def
      newrelic_Exec_def configstoreentry_Exec_def)

theorem list_verbose_json_rejected_witness:
  "Verbose (Globals example_s3_list) \<and> json example_s3_list \<and>
   s3_Exec example_list_env example_s3_list =
     (Some ErrInvalidVerboseJSONCombo, example_s3_list, []) \<and>
   datadog_Exec example_list_env example_s3_list =
     (Some ErrInvalidVerboseJSONCombo, example_s3_list, []) \<and>
   cloudfiles_Exec example_list_env example_s3_list =
     (Some ErrInvalidVerboseJSONCombo, example_s3_list, []) \<and>
   sftp_Exec example_list_env example_s3_list =
     (Some ErrInvalidVerboseJSONCombo, example_s3_list, []) \<and>
   Verbose (Globals example_snippet_list) \<and> json example_snippet_list \<and>
   snippet_Exec example_list_env example_snippet_list = (Some ErrInvalidVerboseJSONCombo, []) \<and>
   newrelic_Exec example_list_env example_snippet_list = (Some ErrInvalidVerboseJSONCombo, []) \<and>
   Verbose (Globals example_configstoreentry_list) \<and>
   JSONOutput_Enabled example_configstoreentry_list \<and>
   configstoreentry_Exec example_list_env example_configstoreentry_list =
     (Some ErrInvalidVerboseJSONCombo, [])"
proof -
  have s3: "Verbose (Globals example_s3_list) \<and> json example_s3_list"
    by (simp add: example_s3_list_def)
  have snippet: "Verbose (Globals example_snippet_list) \<and> json example_snippet_list"
    by (simp add: example_snippet_list_def)
  have store: "Verbose (Globals example_configstoreentry_list) \<and>
      JSONOutput_Enabled example_configstoreentry_list"
    by (simp add: example_configstoreentry_list_def)
  from list_verbose_json_rejected [where c = example_s3_list and c' = example_snippet_list
      and c'' = example_configstoreentry_list and env = example_list_env]
  show ?thesis using s3 snippet store by simp
qed

end
